theory Spec2Isabelle
  imports Complex_Main "HOL-Library.Char_ord" "HOL-Library.List_Lexorder" "HOL-Library.AList"
begin

section \<open>Values of the interpreter\<close>

text \<open>
  The interpreter stores Go values of type \<^verbatim>\<open>interface{}\<close>. The dynamic types that
  reach the variable store, the results and the JSON decoder are: nil, bool, int
  (loop indices, status codes, lengths), int64, float64 (every NUMBER literal and
  every arithmetic result), string, \<^verbatim>\<open>[]interface{}\<close> and \<^verbatim>\<open>map[string]interface{}\<close>.
  A float64 is modelled by the rational it denotes (no NaN, no infinities, no
  rounding); an int by a mathematical integer. Strings are byte strings, as in Go.
\<close>

datatype val =
    VNil
  | VBool bool
  | VInt int
  | VInt64 int
  | VFloat rat
  | VStr string
  | VList "val list"
  | VMap "(string \<times> val) list"

subsection \<open>Formatting with the verb \<^verbatim>\<open>%v\<close>\<close>

definition digit_char :: "nat \<Rightarrow> char" where
  "digit_char n = ''0123456789'' ! (n mod 10)"

fun digits :: "nat \<Rightarrow> string" where
  "digits n = (if n < 10 then [digit_char n] else digits (n div 10) @ [digit_char n])"

declare digits.simps [simp del]

definition Itoa :: "int \<Rightarrow> string" where
  "Itoa i = (if i < 0 then CHR ''-'' # digits (nat (- i)) else digits (nat i))"

fun fracDigits :: "nat \<Rightarrow> rat \<Rightarrow> string" where
  "fracDigits 0 f = []"
| "fracDigits (Suc n) f =
     (if f = 0 then []
      else digit_char (nat \<lfloor>f * 10\<rfloor>) # fracDigits n (f * 10 - of_int \<lfloor>f * 10\<rfloor>))"

text \<open>
  \<^verbatim>\<open>%v\<close> of a float64 prints the shortest decimal that reads back as the same
  number. For the model's rationals this is the decimal expansion, cut after 17
  fractional digits; it agrees with Go on integers and short decimals of ordinary
  magnitude (Go switches to exponent notation below 1e-4 and from 1e21 on).
\<close>

definition FormatFloat :: "rat \<Rightarrow> string" where
  "FormatFloat r =
     (if r < 0 then ''-'' else '''') @ Itoa \<lfloor>\<bar>r\<bar>\<rfloor> @
     (if \<bar>r\<bar> - of_int \<lfloor>\<bar>r\<bar>\<rfloor> = 0 then ''''
      else CHR ''.'' # fracDigits 17 (\<bar>r\<bar> - of_int \<lfloor>\<bar>r\<bar>\<rfloor>))"

fun Join :: "string list \<Rightarrow> string \<Rightarrow> string" where
  "Join [] sep = ''''"
| "Join [x] sep = x"
| "Join (x # y # ys) sep = x @ sep @ Join (y # ys) sep"

text \<open>
  \<^verbatim>\<open>fmt.Sprintf("%v", v)\<close>: a slice prints as \<^verbatim>\<open>[a b c]\<close>, a map as
  \<^verbatim>\<open>map[k:v k:v]\<close> (the model keeps a map's entries in the order fmt prints them,
  sorted by key).
\<close>

fun Sprintf_v :: "val \<Rightarrow> string" where
  "Sprintf_v VNil = ''<nil>''"
| "Sprintf_v (VBool b) = (if b then ''true'' else ''false'')"
| "Sprintf_v (VInt i) = Itoa i"
| "Sprintf_v (VInt64 i) = Itoa i"
| "Sprintf_v (VFloat r) = FormatFloat r"
| "Sprintf_v (VStr s) = s"
| "Sprintf_v (VList xs) = ''['' @ Join (map (\<lambda>x. Sprintf_v x) xs) '' '' @ '']''"
| "Sprintf_v (VMap kvs) =
     ''map['' @ Join (map (\<lambda>kv. fst kv @ '':'' @ Sprintf_v (snd kv)) kvs) '' '' @ '']''"

section \<open>The Go string functions the interpreter uses\<close>

definition HasPrefix :: "string \<Rightarrow> string \<Rightarrow> bool" where
  "HasPrefix s p = (take (length p) s = p)"

definition HasSuffix :: "string \<Rightarrow> string \<Rightarrow> bool" where
  "HasSuffix s p = (length p \<le> length s \<and> drop (length s - length p) s = p)"

definition TrimPrefix :: "string \<Rightarrow> string \<Rightarrow> string" where
  "TrimPrefix s p = (if HasPrefix s p then drop (length p) s else s)"

definition TrimSuffix :: "string \<Rightarrow> string \<Rightarrow> string" where
  "TrimSuffix s p = (if HasSuffix s p then take (length s - length p) s else s)"

definition isSpace :: "char \<Rightarrow> bool" where
  "isSpace c = (c = CHR '' '' \<or> c = CHR 0x09 \<or> c = CHR 0x0A \<or> c = CHR 0x0B
                \<or> c = CHR 0x0C \<or> c = CHR 0x0D)"

definition TrimSpace :: "string \<Rightarrow> string" where
  "TrimSpace s = rev (dropWhile isSpace (rev (dropWhile isSpace s)))"

definition Trim :: "string \<Rightarrow> string \<Rightarrow> string" where
  "Trim s cutset =
     rev (dropWhile (\<lambda>c. c \<in> set cutset) (rev (dropWhile (\<lambda>c. c \<in> set cutset) s)))"

fun fields_from :: "string \<Rightarrow> string \<Rightarrow> string list" where
  "fields_from cur [] = (if cur = [] then [] else [cur])"
| "fields_from cur (c # cs) =
     (if isSpace c then (if cur = [] then fields_from [] cs else cur # fields_from [] cs)
      else fields_from (cur @ [c]) cs)"

definition Fields :: "string \<Rightarrow> string list" where
  "Fields s = fields_from [] s"

function split_from :: "string \<Rightarrow> string \<Rightarrow> string \<Rightarrow> string list" where
  "split_from sep cur s =
     (if s = [] then [cur]
      else if sep \<noteq> [] \<and> HasPrefix s sep then cur # split_from sep [] (drop (length sep) s)
      else split_from sep (cur @ [hd s]) (tl s))"
  by pat_completeness auto
termination
  by (relation "measure (\<lambda>(sep, cur, s). length s)") auto

declare split_from.simps [simp del]

definition Split :: "string \<Rightarrow> string \<Rightarrow> string list" where
  "Split s sep = (if sep = [] then map (\<lambda>c. [c]) s else split_from sep [] s)"

function index_from :: "nat \<Rightarrow> string \<Rightarrow> string \<Rightarrow> int" where
  "index_from i s sub =
     (if HasPrefix s sub then int i
      else if s = [] then - 1
      else index_from (Suc i) (tl s) sub)"
  by pat_completeness auto
termination
  by (relation "measure (\<lambda>(i, s, sub). length s)") auto

declare index_from.simps [simp del]

definition Index :: "string \<Rightarrow> string \<Rightarrow> int" where
  "Index s sub = index_from 0 s sub"

definition Contains :: "string \<Rightarrow> string \<Rightarrow> bool" where
  "Contains s sub = (0 \<le> Index s sub)"

definition SplitN2 :: "string \<Rightarrow> string \<Rightarrow> string list" where
  "SplitN2 s sep =
     (if Contains s sep
      then [take (nat (Index s sep)) s, drop (nat (Index s sep) + length sep) s]
      else [s])"

function ReplaceAll :: "string \<Rightarrow> string \<Rightarrow> string \<Rightarrow> string" where
  "ReplaceAll s old new =
     (if old = [] then new @ concat (map (\<lambda>c. c # new) s)
      else if s = [] then []
      else if HasPrefix s old then new @ ReplaceAll (drop (length old) s) old new
      else hd s # ReplaceAll (tl s) old new)"
  by pat_completeness auto
termination
  by (relation "measure (\<lambda>(s, old, new). length s)") auto

declare ReplaceAll.simps [simp del]

section \<open>Reading numbers\<close>

text \<open>
  \<^verbatim>\<open>strconv.ParseFloat\<close>, \<^verbatim>\<open>strconv.Atoi\<close> and \<^verbatim>\<open>fmt.Sscanf\<close> with the verbs
  \<^verbatim>\<open>%f\<close> and \<^verbatim>\<open>%d\<close> belong to Go's library. They are modelled on decimal notation:
  an optional sign, digits with an optional fraction, an optional decimal exponent.
  (Hexadecimal floats, digit separators, \<^verbatim>\<open>Inf\<close> and \<^verbatim>\<open>NaN\<close> are outside the model.)
  \<^verbatim>\<open>ParseFloat\<close> and \<^verbatim>\<open>Atoi\<close> accept a string only as a whole. \<^verbatim>\<open>Sscanf\<close> skips leading
  blanks, reads the longest run of characters that can belong to a number
  (\<^verbatim>\<open>floatToken\<close>), converts that run and ignores whatever follows it; it fails on
  empty input and where the run is not a number.
\<close>

definition isDigit :: "char \<Rightarrow> bool" where
  "isDigit c = (c \<in> set ''0123456789'')"

definition digit_val :: "char \<Rightarrow> nat" where
  "digit_val c = length (takeWhile (\<lambda>d. d \<noteq> c) ''0123456789'')"

definition natOfDigits :: "string \<Rightarrow> nat" where
  "natOfDigits ds = foldl (\<lambda>a c. 10 * a + digit_val c) 0 ds"

definition isSign :: "string \<Rightarrow> bool" where
  "isSign s = (s \<noteq> [] \<and> (hd s = CHR ''+'' \<or> hd s = CHR ''-''))"

definition isNeg :: "string \<Rightarrow> bool" where
  "isNeg s = (s \<noteq> [] \<and> hd s = CHR ''-'')"

definition isExpMark :: "string \<Rightarrow> bool" where
  "isExpMark s = (s \<noteq> [] \<and> (hd s = CHR ''e'' \<or> hd s = CHR ''E''))"

definition mantissa :: "string \<Rightarrow> (rat \<times> string) option" where
  "mantissa s =
     (let ip = takeWhile isDigit s;
          r1 = dropWhile isDigit s;
          hasDot = (r1 \<noteq> [] \<and> hd r1 = CHR ''.'');
          fp = (if hasDot then takeWhile isDigit (tl r1) else []);
          r2 = (if hasDot then dropWhile isDigit (tl r1) else r1)
      in if ip = [] \<and> fp = [] then None
         else Some (of_nat (natOfDigits ip) + of_nat (natOfDigits fp) / 10 ^ length fp, r2))"

definition exponent :: "string \<Rightarrow> (int \<times> string) option" where
  "exponent s =
     (if isExpMark s
      then (let r = (if isSign (tl s) then tl (tl s) else tl s);
                ds = takeWhile isDigit r
            in if ds = [] then None
               else Some ((if isNeg (tl s) then - 1 else 1) * int (natOfDigits ds),
                          dropWhile isDigit r))
      else Some (0, s))"

definition pow10 :: "int \<Rightarrow> rat" where
  "pow10 e = (if e < 0 then 1 / 10 ^ nat (- e) else 10 ^ nat e)"

definition ParseFloat :: "string \<Rightarrow> rat option" where
  "ParseFloat s =
     (case mantissa (if isSign s then tl s else s) of
        None \<Rightarrow> None
      | Some (m, r) \<Rightarrow>
          (case exponent r of
             None \<Rightarrow> None
           | Some (e, r') \<Rightarrow>
               if r' = [] then Some ((if isNeg s then - m else m) * pow10 e) else None))"

definition Atoi :: "string \<Rightarrow> int option" where
  "Atoi s =
     (let ds = (if isSign s then tl s else s)
      in if ds \<noteq> [] \<and> list_all isDigit ds
         then Some ((if isNeg s then - 1 else 1) * int (natOfDigits ds)) else None)"

fun SkipSpace :: "string \<Rightarrow> string option" where
  "SkipSpace [] = Some []"
| "SkipSpace (c # cs) =
     (if c = CHR 0x0A then None else if isSpace c then SkipSpace cs else Some (c # cs))"

definition floatToken :: "string \<Rightarrow> string" where
  "floatToken s =
     (let sg = (if isSign s then [hd s] else []);
          s1 = drop (length sg) s;
          ip = takeWhile isDigit s1;
          s2 = dropWhile isDigit s1;
          fp = (if s2 \<noteq> [] \<and> hd s2 = CHR ''.'' then CHR ''.'' # takeWhile isDigit (tl s2) else []);
          s3 = drop (length fp) s2;
          ex = (if isExpMark s3
                then hd s3 # (if isSign (tl s3) then hd (tl s3) # takeWhile isDigit (tl (tl s3))
                              else takeWhile isDigit (tl s3))
                else [])
      in sg @ ip @ fp @ ex)"

definition Sscanf_f :: "string \<Rightarrow> rat option" where
  "Sscanf_f s =
     (case SkipSpace s of
        None \<Rightarrow> None
      | Some s' \<Rightarrow> if s' = [] then None else ParseFloat (floatToken s'))"

definition Sscanf_d :: "string \<Rightarrow> int option" where
  "Sscanf_d s =
     (case SkipSpace s of
        None \<Rightarrow> None
      | Some s' \<Rightarrow>
          (let sg = (if isSign s' then [hd s'] else []);
               ds = takeWhile isDigit (drop (length sg) s')
           in Atoi (sg @ ds)))"


section \<open>Truthiness: \<^verbatim>\<open>toBool\<close>\<close>

text \<open>
  \<^verbatim>\<open>
  func (hd *HTTPDSLv3) toBool(v interface{}) bool {
      switch val := v.(type) {
      case bool:
          return val
      case string:
          return val != "" && val != "false" && val != "0"
      case int, int64, float64:
          return val != 0
      default:
          return v != nil
      }
  }
  \<close>
  In the clause \<^verbatim>\<open>case int, int64, float64\<close> the switch lists several types, so
  \<^verbatim>\<open>val\<close> keeps the static type \<^verbatim>\<open>interface{}\<close> of \<^verbatim>\<open>v\<close>. The comparison
  \<^verbatim>\<open>val != 0\<close> therefore converts the untyped constant 0 to an interface value of
  its default type, \<^verbatim>\<open>int(0)\<close>, and two interface values are equal only when their
  dynamic types are identical and their values equal. \<^verbatim>\<open>ifaceEqInt0\<close> is that
  comparison \<^verbatim>\<open>val == interface{}(int(0))\<close>.
\<close>

fun ifaceEqInt0 :: "val \<Rightarrow> bool" where
  "ifaceEqInt0 (VInt i) = (i = 0)"
| "ifaceEqInt0 v = False"

fun toBool :: "val \<Rightarrow> bool" where
  "toBool (VBool b) = b"
| "toBool (VStr s) = (s \<noteq> '''' \<and> s \<noteq> ''false'' \<and> s \<noteq> ''0'')"
| "toBool (VInt i) = (\<not> ifaceEqInt0 (VInt i))"
| "toBool (VInt64 i) = (\<not> ifaceEqInt0 (VInt64 i))"
| "toBool (VFloat r) = (\<not> ifaceEqInt0 (VFloat r))"
| "toBool v = (v \<noteq> VNil)"

section \<open>Comparisons\<close>

text \<open>
  Both comparison functions end in a \<^verbatim>\<open>switch\<close> over the operator. \<^verbatim>\<open>cmp_switch\<close>
  is that switch, on numbers or on strings; \<^verbatim>\<open>None\<close> means that no case matched and
  control leaves the switch.
\<close>

definition cmp_switch :: "string \<Rightarrow> 'a::linorder \<Rightarrow> 'a \<Rightarrow> bool option" where
  "cmp_switch op a b =
     (if op = ''=='' then Some (a = b)
      else if op = ''!='' then Some (a \<noteq> b)
      else if op = ''>'' then Some (a > b)
      else if op = ''>='' then Some (a \<ge> b)
      else if op = ''<'' then Some (a < b)
      else if op = ''<='' then Some (a \<le> b)
      else None)"

text \<open>\<^verbatim>\<open>HTTPEngine.Compare\<close> (the grammar's \<^verbatim>\<open>comparison\<close> action).\<close>

definition Compare :: "val \<Rightarrow> string \<Rightarrow> val \<Rightarrow> bool" where
  "Compare left op right =
     (let leftStr = Sprintf_v left; rightStr = Sprintf_v right
      in case (case (ParseFloat leftStr, ParseFloat rightStr) of
                 (Some leftNum, Some rightNum) \<Rightarrow> cmp_switch op leftNum rightNum
               | _ \<Rightarrow> None) of
           Some b \<Rightarrow> b
         | None \<Rightarrow> (case cmp_switch op leftStr rightStr of Some b \<Rightarrow> b | None \<Rightarrow> False))"

text \<open>
  \<^verbatim>\<open>HTTPDSLv3.CompareValues\<close> (the block preprocessor's comparison). An int or a
  float64 is a number; a string is a number when \<^verbatim>\<open>fmt.Sscanf(v, "%f", &n)\<close> reports
  no error; any other value is not.
\<close>

fun asNumber :: "val \<Rightarrow> rat option" where
  "asNumber (VInt i) = Some (of_int i)"
| "asNumber (VFloat r) = Some r"
| "asNumber (VStr s) = Sscanf_f s"
| "asNumber v = None"

definition CompareValues :: "val \<Rightarrow> string \<Rightarrow> val \<Rightarrow> bool" where
  "CompareValues left operator right =
     (case (case (asNumber left, asNumber right) of
              (Some leftNum, Some rightNum) \<Rightarrow> cmp_switch operator leftNum rightNum
            | _ \<Rightarrow> None) of
        Some b \<Rightarrow> b
      | None \<Rightarrow>
          (case cmp_switch operator (Sprintf_v left) (Sprintf_v right) of
             Some b \<Rightarrow> b | None \<Rightarrow> False))"

section \<open>Variable expansion\<close>

type_synonym store = "(string \<times> val) list"

definition expandVariables_in :: "string list \<Rightarrow> store \<Rightarrow> string \<Rightarrow> string" where
  "expandVariables_in names vars s =
     foldl (\<lambda>result name.
              case map_of vars name of
                None \<Rightarrow> result
              | Some value \<Rightarrow> ReplaceAll result (''$'' @ name) (Sprintf_v value))
           s names"

section \<open>Go's library and runtime\<close>

text \<open>
  What the interpreter takes from outside its own source is a parameter of the model:
  the order in which \<^verbatim>\<open>range\<close> visits the keys of a map (Go leaves it unspecified and
  randomises it), \<^verbatim>\<open>net/url\<close>, \<^verbatim>\<open>encoding/json\<close>, \<^verbatim>\<open>regexp\<close> and the canonical form
  of a header name. \<^verbatim>\<open>regexp_Compile\<close> gives \<^verbatim>\<open>None\<close> for a pattern that does not
  compile, and otherwise the function \<^verbatim>\<open>FindStringSubmatch\<close> of the compiled pattern
  (the empty list when nothing matches, else the match followed by its groups).

  The parsing library \<^verbatim>\<open>dslbuilder\<close> is outside the source as well. The texts of the
  errors that its \<^verbatim>\<open>Parse\<close> returns are parameters too: \<^verbatim>\<open>dsl_syntaxError input\<close> is
  the text for an input that no rule derives, \<^verbatim>\<open>dsl_actionError msg\<close> the text for an
  input whose action returned the error \<^verbatim>\<open>msg\<close>.
\<close>

record golib =
  rangeOrder :: "string list \<Rightarrow> string list"
  url_Parse :: "string \<Rightarrow> string option"
  json_Unmarshal :: "string \<Rightarrow> val option"
  json_Marshal :: "val \<Rightarrow> string"
  regexp_Compile :: "string \<Rightarrow> (string \<Rightarrow> string list) option"
  CanonicalMIMEHeaderKey :: "string \<Rightarrow> string"
  dsl_syntaxError :: "string \<Rightarrow> string"
  dsl_actionError :: "string \<Rightarrow> string"

datatype error = Errorf string | Panic string

fun Error_msg :: "error \<Rightarrow> string" where
  "Error_msg (Errorf m) = m"
| "Error_msg (Panic m) = m"

section \<open>The HTTP engine\<close>

text \<open>
  Of \<^verbatim>\<open>HTTPEngine\<close> the model keeps the fields that scripts can observe: the base URL
  and the last-response snapshot. \<^verbatim>\<open>lastResponse\<close> is the \<^verbatim>\<open>*http.Response\<close>, of which
  only the header is read; \<^verbatim>\<open>None\<close> is the nil pointer. The field \<^verbatim>\<open>client\<close> stands
  for the \<^verbatim>\<open>http.Client\<close> and the network behind it: the exchanges still to come, each
  with the time it takes in milliseconds. Once the list is used up every request
  fails as an unreachable host does. The text of a \<^verbatim>\<open>DoError\<close> is the text of the
  error that \<^verbatim>\<open>client.Do\<close> returns; in Go it is a \<^verbatim>\<open>*url.Error\<close>, whose text names the
  method and the URL of the request before the cause. Cookies, history, metrics,
  sessions, logs and the rate limiter are not modelled.
\<close>

type_synonym header = "(string \<times> string list) list"

datatype exchange =
    DoError string
  | ReadError int header string
  | DoResponse int header string

record HTTPEngine =
  client :: "(rat \<times> exchange) list"
  baseURL :: string
  lastResponse :: "header option"
  lastResponseBody :: string
  lastStatusCode :: int
  lastResponseTime :: rat

definition NewHTTPEngine :: "(rat \<times> exchange) list \<Rightarrow> HTTPEngine" where
  "NewHTTPEngine net =
     \<lparr>client = net, baseURL = '''', lastResponse = None, lastResponseBody = '''',
      lastStatusCode = 0, lastResponseTime = 0\<rparr>"

definition client_Do :: "HTTPEngine \<Rightarrow> (rat \<times> exchange) \<times> (rat \<times> exchange) list" where
  "client_Do he =
     (case client he of
        [] \<Rightarrow> ((0, DoError ''dial tcp: connection refused''), [])
      | x # xs \<Rightarrow> (x, xs))"

definition header_val :: "header \<Rightarrow> val" where
  "header_val h = VMap (map (\<lambda>kv. (fst kv, VList (map VStr (snd kv)))) h)"

text \<open>
  \<^verbatim>\<open>HTTPEngine.Request\<close>. The options of a request (headers, body, authentication,
  timeout) shape the outgoing message only, which the scripted client does not
  inspect; they are left out. \<^verbatim>\<open>http.NewRequest\<close> cannot fail on a method keyword of
  the grammar and a URL that \<^verbatim>\<open>url.Parse\<close> accepted, and no hook is ever registered
  by a script.
\<close>

definition Request :: "golib \<Rightarrow> HTTPEngine \<Rightarrow> string \<Rightarrow> string \<Rightarrow> (error + val) \<times> HTTPEngine" where
  "Request lib he method urlStr =
     (let urlStr' = (if baseURL he \<noteq> '''' \<and> \<not> HasPrefix urlStr ''http''
                     then baseURL he @ urlStr else urlStr)
      in case url_Parse lib urlStr' of
           None \<Rightarrow> (Inl (Errorf (''invalid URL: '' @ urlStr')), he)
         | Some parsedURL \<Rightarrow>
             (case client_Do he of
                ((duration, DoError err), rest) \<Rightarrow>
                  (Inl (Errorf (''request failed: '' @ err)),
                   he\<lparr>client := rest, lastResponseTime := duration\<rparr>)
              | ((duration, ReadError status hdr err), rest) \<Rightarrow>
                  (Inl (Errorf (''failed to read response: '' @ err)),
                   he\<lparr>client := rest, lastResponseTime := duration\<rparr>)
              | ((duration, DoResponse status hdr body), rest) \<Rightarrow>
                  (Inr (VMap [(''body'', VStr body), (''headers'', header_val hdr),
                              (''size'', VInt (int (length body))), (''status'', VInt status),
                              (''time'', VFloat duration)]),
                   he\<lparr>client := rest, lastResponseTime := duration,
                      lastResponse := Some hdr, lastResponseBody := body,
                      lastStatusCode := status\<rparr>)))"

definition GetLastResponse :: "HTTPEngine \<Rightarrow> string" where
  "GetLastResponse he = lastResponseBody he"

definition SetBaseURL :: "HTTPEngine \<Rightarrow> string \<Rightarrow> HTTPEngine" where
  "SetBaseURL he url = he\<lparr>baseURL := (if HasSuffix url ''/'' then url else url @ ''/'')\<rparr>"

subsection \<open>Extraction\<close>

text \<open>
  A slice expression \<^verbatim>\<open>s[lo:hi]\<close> panics unless \<^verbatim>\<open>0 <= lo <= hi <= len(s)\<close>, an index
  expression \<^verbatim>\<open>a[i]\<close> unless \<^verbatim>\<open>0 <= i < len(a)\<close>.
\<close>

definition slice :: "string \<Rightarrow> int \<Rightarrow> int \<Rightarrow> error + string" where
  "slice s lo hi =
     (if 0 \<le> lo \<and> lo \<le> hi \<and> hi \<le> int (length s)
      then Inr (take (nat hi - nat lo) (drop (nat lo) s))
      else Inl (Panic ''slice bounds out of range''))"

definition index :: "val list \<Rightarrow> int \<Rightarrow> error + val" where
  "index a i =
     (if 0 \<le> i \<and> i < int (length a) then Inr (a ! nat i)
      else Inl (Panic ''index out of range''))"

definition filterExprParts :: "string \<Rightarrow> string \<times> string \<times> string" where
  "filterExprParts filterExpr =
     (if Contains filterExpr '' == ''
      then (Split filterExpr '' == '' ! 0, ''=='', Trim (Split filterExpr '' == '' ! 1) [CHR 0x27, CHR 0x22])
      else if Contains filterExpr '' != ''
      then (Split filterExpr '' != '' ! 0, ''!='', Trim (Split filterExpr '' != '' ! 1) [CHR 0x27, CHR 0x22])
      else if Contains filterExpr '' > ''
      then (Split filterExpr '' > '' ! 0, ''>'', Trim (Split filterExpr '' > '' ! 1) [CHR 0x27, CHR 0x22])
      else if Contains filterExpr '' < ''
      then (Split filterExpr '' < '' ! 0, ''<'', Trim (Split filterExpr '' < '' ! 1) [CHR 0x27, CHR 0x22])
      else ('''', '''', ''''))"

definition filterMatch :: "string \<Rightarrow> string \<Rightarrow> val \<Rightarrow> bool" where
  "filterMatch operator compareValue fieldValue =
     (let fieldStr = Sprintf_v fieldValue
      in case (ParseFloat fieldStr, ParseFloat compareValue) of
           (Some fieldNum, Some compareNum) \<Rightarrow>
             (if operator = ''=='' then fieldNum = compareNum
              else if operator = ''!='' then fieldNum \<noteq> compareNum
              else if operator = ''>'' then fieldNum > compareNum
              else if operator = ''<'' then fieldNum < compareNum
              else False)
         | _ \<Rightarrow>
             (if operator = ''=='' then fieldStr = compareValue
              else if operator = ''!='' then fieldStr \<noteq> compareValue
              else False))"

fun filterItems :: "string \<Rightarrow> string \<Rightarrow> string \<Rightarrow> string option \<Rightarrow> val list \<Rightarrow> val list" where
  "filterItems fieldName operator compareValue fieldSelector [] = []"
| "filterItems fieldName operator compareValue fieldSelector (item # arr) =
     (case item of
        VMap obj \<Rightarrow>
          (case map_of obj fieldName of
             Some fieldValue \<Rightarrow>
               (if filterMatch operator compareValue fieldValue
                then (case fieldSelector of
                        Some sel \<Rightarrow> (case map_of obj sel of Some selectedValue \<Rightarrow> [selectedValue] | None \<Rightarrow> [])
                      | None \<Rightarrow> [item])
                else [])
           | None \<Rightarrow> [])
      | _ \<Rightarrow> [])
     @ filterItems fieldName operator compareValue fieldSelector arr"

definition jsonPathFilter :: "string \<Rightarrow> val \<Rightarrow> val" where
  "jsonPathFilter path data =
     (let filterEnd = Index path '')]''
      in if filterEnd > 6
         then (let filterExpr = take (nat filterEnd - 6) (drop 6 path);
                   fieldName = fst (filterExprParts filterExpr);
                   operator = fst (snd (filterExprParts filterExpr));
                   compareValue = snd (snd (filterExprParts filterExpr));
                   fieldSelector =
                     (if filterEnd + 2 < int (length path) \<and> path ! nat (filterEnd + 2) = CHR ''.''
                      then Some (drop (nat (filterEnd + 3)) path) else None)
               in case data of
                    VList arr \<Rightarrow>
                      (let results = filterItems fieldName operator compareValue fieldSelector arr
                       in if length results = 1 then results ! 0
                          else if length results > 0 then VList results
                          else VNil)
                  | _ \<Rightarrow> VNil)
         else VNil)"

text \<open>One step of the loop over the dot-separated parts of a simple path.\<close>

definition jsonPathPart :: "string \<Rightarrow> val \<Rightarrow> error + val option" where
  "jsonPathPart part current =
     (if Contains part ''['' \<and> Contains part '']''
      then (case slice part 0 (Index part ''['') of
              Inl e \<Rightarrow> Inl e
            | Inr fieldName \<Rightarrow>
                (case slice part (Index part ''['' + 1) (Index part '']'') of
                   Inl e \<Rightarrow> Inl e
                 | Inr indexStr \<Rightarrow>
                     (let idx = (case Atoi indexStr of Some n \<Rightarrow> n | None \<Rightarrow> 0)
                      in case current of
                           VMap m \<Rightarrow>
                             (case map_of m fieldName of
                                Some (VList arr) \<Rightarrow>
                                  (if idx < int (length arr)
                                   then (case index arr idx of Inl e \<Rightarrow> Inl e | Inr v \<Rightarrow> Inr (Some v))
                                   else Inr None)
                              | _ \<Rightarrow> Inr None)
                         | _ \<Rightarrow> Inr None)))
      else (case current of
              VMap m \<Rightarrow> Inr (Some (case map_of m part of Some v \<Rightarrow> v | None \<Rightarrow> VNil))
            | _ \<Rightarrow> Inr None))"

fun jsonPathParts :: "string list \<Rightarrow> val \<Rightarrow> error + val" where
  "jsonPathParts [] current = Inr current"
| "jsonPathParts (part # parts) current =
     (case jsonPathPart part current of
        Inl e \<Rightarrow> Inl e
      | Inr None \<Rightarrow> Inr VNil
      | Inr (Some next) \<Rightarrow> jsonPathParts parts next)"

function extractJSONPath :: "golib \<Rightarrow> HTTPEngine \<Rightarrow> string \<Rightarrow> (error + val) \<times> HTTPEngine" where
  "extractJSONPath lib he path =
     (case json_Unmarshal lib (lastResponseBody he) of
        None \<Rightarrow> (Inr VNil, he)
      | Some data \<Rightarrow>
          if HasPrefix path ''$[?(@.'' then (Inr (jsonPathFilter path data), he)
          else if HasPrefix path ''$[''
          then (if Index path '']'' > 2
                then (case Atoi (take (nat (Index path '']'') - 2) (drop 2 path)) of
                        None \<Rightarrow> (Inr VNil, he)
                      | Some idx \<Rightarrow>
                          (case data of
                             VList arr \<Rightarrow>
                               if idx < int (length arr)
                               then (case index arr idx of
                                       Inl e \<Rightarrow> (Inl e, he)
                                     | Inr current \<Rightarrow>
                                         if Index path '']'' + 1 < int (length path)
                                            \<and> path ! nat (Index path '']'' + 1) = CHR ''.''
                                         then (case extractJSONPath lib
                                                      (he\<lparr>lastResponseBody := json_Marshal lib current\<rparr>)
                                                      (''$'' @ drop (nat (Index path '']'' + 1)) path) of
                                                 (Inl e, he') \<Rightarrow> (Inl e, he')
                                               | (Inr result, he') \<Rightarrow>
                                                   (Inr result, he'\<lparr>lastResponseBody := json_Marshal lib data\<rparr>))
                                         else (Inr current, he))
                               else (Inr VNil, he)
                           | _ \<Rightarrow> (Inr VNil, he)))
                else (Inr VNil, he))
          else (jsonPathParts (Split (TrimPrefix path ''$.'') ''.'') data, he))"
  by pat_completeness auto
termination
  by (relation "measure (\<lambda>(lib, he, path). length path)") auto

declare extractJSONPath.simps [simp del]

definition extractXPath :: "golib \<Rightarrow> HTTPEngine \<Rightarrow> string \<Rightarrow> error + val" where
  "extractXPath lib he path =
     (if HasPrefix path ''//''
      then (let tagName0 = TrimPrefix path ''//'';
                tagName = (if Contains tagName0 ''/'' then take (nat (Index tagName0 ''/'')) tagName0
                           else tagName0);
                pattern = ''<'' @ tagName @ ''[^>]*>(.*?)</'' @ tagName @ ''>''
            in case regexp_Compile lib pattern of
                 None \<Rightarrow> Inl (Panic (''regexp: Compile: '' @ pattern))
               | Some FindStringSubmatch \<Rightarrow>
                   (let matches = FindStringSubmatch (lastResponseBody he)
                    in if length matches > 1 then Inr (VStr (matches ! 1)) else Inr VNil))
      else Inr VNil)"

definition extractRegex :: "golib \<Rightarrow> HTTPEngine \<Rightarrow> string \<Rightarrow> val" where
  "extractRegex lib he pattern =
     (case regexp_Compile lib pattern of
        None \<Rightarrow> VNil
      | Some FindStringSubmatch \<Rightarrow>
          (let matches = FindStringSubmatch (lastResponseBody he)
           in if length matches > 1 then VStr (matches ! 1)
              else if length matches = 1 then VStr (matches ! 0)
              else VNil))"

definition Header_Get :: "golib \<Rightarrow> header \<Rightarrow> string \<Rightarrow> string" where
  "Header_Get lib h key =
     (case map_of h (CanonicalMIMEHeaderKey lib key) of
        Some (v # vs) \<Rightarrow> v
      | _ \<Rightarrow> '''')"

definition Extract :: "golib \<Rightarrow> HTTPEngine \<Rightarrow> string \<Rightarrow> string \<Rightarrow> (error + val) \<times> HTTPEngine" where
  "Extract lib he extractType pattern =
     (if extractType = ''status'' then (Inr (VInt (lastStatusCode he)), he)
      else if extractType = ''header''
      then (case lastResponse he of
              Some h \<Rightarrow> (Inr (VStr (Header_Get lib h pattern)), he)
            | None \<Rightarrow> (Inr VNil, he))
      else if extractType = ''jsonpath'' then extractJSONPath lib he pattern
      else if extractType = ''xpath'' then (extractXPath lib he pattern, he)
      else if extractType = ''regex'' then (Inr (extractRegex lib he pattern), he)
      else (Inr VNil, he))"

section \<open>The interpreter\<close>

record HTTPDSLv3 =
  engine :: HTTPEngine
  variables :: store
  ctx :: store

definition NewHTTPDSLv3 :: "(rat \<times> exchange) list \<Rightarrow> HTTPDSLv3" where
  "NewHTTPDSLv3 net = \<lparr>engine = NewHTTPEngine net, variables = [], ctx = []\<rparr>"

definition SetVariable :: "string \<Rightarrow> val \<Rightarrow> HTTPDSLv3 \<Rightarrow> HTTPDSLv3" where
  "SetVariable name v self = self\<lparr>variables := AList.update name v (variables self)\<rparr>"

definition GetVariable :: "HTTPDSLv3 \<Rightarrow> string \<Rightarrow> val option" where
  "GetVariable self name = map_of (variables self) name"

text \<open>
  \<^verbatim>\<open>expandVariables\<close> ranges over the variable map; the order of the visit is the
  runtime's choice.
\<close>

definition expandVariables :: "golib \<Rightarrow> HTTPDSLv3 \<Rightarrow> string \<Rightarrow> string" where
  "expandVariables lib self s =
     expandVariables_in (rangeOrder lib (map fst (variables self))) (variables self) s"

definition unquoteString :: "string \<Rightarrow> string" where
  "unquoteString s =
     (if length s \<ge> 2 \<and> hd s = CHR 0x22 \<and> last s = CHR 0x22
      then ReplaceAll (ReplaceAll (ReplaceAll (ReplaceAll (ReplaceAll
             (take (length s - 2) (drop 1 s))
             [CHR 0x5C, CHR 0x22] [CHR 0x22])
             [CHR 0x5C, CHR 0x5C] [CHR 0x5C])
             [CHR 0x5C, CHR ''n''] [CHR 0x0A])
             [CHR 0x5C, CHR ''t''] [CHR 0x09])
             [CHR 0x5C, CHR ''r''] [CHR 0x0D]
      else s)"

subsection \<open>Actions of the grammar\<close>

text \<open>
  An action receives the values of the matched symbols (\<^verbatim>\<open>args\<close>) and returns a value
  or an error. For a token the value is its text.
\<close>

type_synonym 'a action = "HTTPDSLv3 \<Rightarrow> (error + 'a) \<times> HTTPDSLv3"

definition valueString :: "golib \<Rightarrow> string \<Rightarrow> val action" where
  "valueString lib arg0 self = (Inr (VStr (expandVariables lib self (unquoteString arg0))), self)"

definition valueNumber :: "string \<Rightarrow> val action" where
  "valueNumber arg0 self =
     (Inr (VFloat (case ParseFloat arg0 of Some num \<Rightarrow> num | None \<Rightarrow> 0)), self)"

definition valueVariable :: "string \<Rightarrow> val action" where
  "valueVariable arg0 self =
     (case map_of (variables self) (TrimPrefix arg0 ''$'') of
        Some v \<Rightarrow> (Inr v, self)
      | None \<Rightarrow> (Inl (Errorf (''variable $'' @ TrimPrefix arg0 ''$'' @ '' not found'')), self))"

definition setVariable :: "string \<Rightarrow> val \<Rightarrow> val action" where
  "setVariable arg1 arg2 self =
     (Inr (VStr (''Variable $'' @ TrimPrefix arg1 ''$'' @ '' set to '' @ Sprintf_v arg2)),
      self\<lparr>variables := AList.update (TrimPrefix arg1 ''$'') arg2 (variables self)\<rparr>)"

definition printVariable :: "string \<Rightarrow> val action" where
  "printVariable arg1 self =
     (case map_of (variables self) (TrimPrefix arg1 ''$'') of
        Some v \<Rightarrow> (Inr (VStr (''$'' @ TrimPrefix arg1 ''$'' @ '' = '' @ Sprintf_v v)), self)
      | None \<Rightarrow> (Inr (VStr (''Variable $'' @ TrimPrefix arg1 ''$'' @ '' not found'')), self))"

definition printString :: "golib \<Rightarrow> string \<Rightarrow> val action" where
  "printString lib arg1 self = (Inr (VStr (expandVariables lib self (unquoteString arg1))), self)"

definition breakCmd :: "val action" where
  "breakCmd self = (Inr (VStr ''break''), self\<lparr>ctx := AList.update ''break'' (VBool True) (ctx self)\<rparr>)"

definition continueCmd :: "val action" where
  "continueCmd self =
     (Inr (VStr ''continue''), self\<lparr>ctx := AList.update ''continue'' (VBool True) (ctx self)\<rparr>)"

definition httpSimple :: "golib \<Rightarrow> string \<Rightarrow> string \<Rightarrow> val action" where
  "httpSimple lib method url self =
     (case Request lib (engine self) method url of
        (r, he') \<Rightarrow> (r, self\<lparr>engine := he'\<rparr>))"

definition noResponseWarning :: "string \<Rightarrow> string" where
  "noResponseWarning varName =
     ''Warning: No response available for extraction. Variable $'' @ varName @ '' set to empty.''"

definition extractVariable :: "golib \<Rightarrow> string \<Rightarrow> string \<Rightarrow> string \<Rightarrow> val action" where
  "extractVariable lib arg1 arg2 arg4 self =
     (let extractType = arg1; pattern = unquoteString arg2; varName = TrimPrefix arg4 ''$''
      in if GetLastResponse (engine self) = ''''
         then (Inr (VStr (noResponseWarning varName)),
               self\<lparr>variables := AList.update varName (VStr '''') (variables self)\<rparr>)
         else (case Extract lib (engine self) extractType pattern of
                 (Inl e, he') \<Rightarrow> (Inl e, self\<lparr>engine := he'\<rparr>)
               | (Inr v, he') \<Rightarrow>
                   (Inr (VStr (''Extracted '' @ pattern @ '' using '' @ extractType
                               @ '' and stored in $'' @ varName)),
                    self\<lparr>engine := he',
                       variables := AList.update varName (if v = VNil then VStr '''' else v)
                                      (variables self)\<rparr>)))"

definition extractVariableNoPattern :: "golib \<Rightarrow> string \<Rightarrow> string \<Rightarrow> val action" where
  "extractVariableNoPattern lib arg1 arg3 self =
     (let extractType = arg1; varName = TrimPrefix arg3 ''$''
      in if GetLastResponse (engine self) = ''''
         then (Inr (VStr (noResponseWarning varName)),
               self\<lparr>variables := AList.update varName (VStr '''') (variables self)\<rparr>)
         else (case Extract lib (engine self) extractType '''' of
                 (Inl e, he') \<Rightarrow> (Inl e, self\<lparr>engine := he'\<rparr>)
               | (Inr v, he') \<Rightarrow>
                   (Inr (VStr (''Extracted '' @ extractType @ '' and stored in $'' @ varName)),
                    self\<lparr>engine := he',
                       variables := AList.update varName (if v = VNil then VStr '''' else v)
                                      (variables self)\<rparr>)))"

subsection \<open>Tokens and statements\<close>

text \<open>
  The tokenizer and the parsing engine are the library \<^verbatim>\<open>dslbuilder\<close>; the tokens,
  rules and actions it is configured with are in \<^verbatim>\<open>setupGrammar\<close>. The model covers
  the statements made of a fixed number of tokens:
  \<^verbatim>\<open>set|var VARIABLE (STRING | NUMBER | VARIABLE)\<close>, \<^verbatim>\<open>print (VARIABLE | STRING)\<close>,
  \<^verbatim>\<open>break\<close>, \<^verbatim>\<open>continue\<close>, \<^verbatim>\<open>extract TYPE [STRING] as VARIABLE\<close> and
  \<^verbatim>\<open>METHOD (STRING | URL | VARIABLE)\<close>. Any other line is answered with a parse
  error, also where the full grammar accepts it (arithmetic, arrays, options of a
  request, the grammar's own conditionals and loops): theorems that go through
  \<^verbatim>\<open>ParseWithContext\<close> only use lines of the covered forms.
\<close>

datatype token = Token string string

definition keywordTokens :: "string list" where
  "keywordTokens =
     [''GET'', ''POST'', ''PUT'', ''DELETE'', ''PATCH'', ''HEAD'', ''OPTIONS'', ''CONNECT'', ''TRACE'',
      ''header'', ''body'', ''json'', ''form'', ''auth'', ''basic'', ''bearer'', ''timeout'', ''ms'', ''s'',
      ''set'', ''var'', ''print'', ''length'', ''split'', ''at'', ''extract'', ''from'', ''as'',
      ''jsonpath'', ''xpath'', ''regex'', ''status'', ''response'',
      ''if'', ''then'', ''else'', ''endif'', ''contains'', ''equals'', ''matches'', ''exists'', ''empty'',
      ''greater'', ''less'',
      ''repeat'', ''times'', ''do'', ''endloop'', ''while'', ''foreach'', ''in'', ''break'', ''continue'',
      ''assert'', ''expect'', ''time'',
      ''wait'', ''sleep'', ''log'', ''debug'', ''clear'', ''cookies'', ''reset'', ''base'', ''url'',
      ''and'', ''or'', ''not'']"

definition isIdentStart :: "char \<Rightarrow> bool" where
  "isIdentStart c =
     (c \<in> set ''abcdefghijklmnopqrstuvwxyzABCDEFGHIJKLMNOPQRSTUVWXYZ_'')"

definition isIdentChar :: "char \<Rightarrow> bool" where
  "isIdentChar c = (isIdentStart c \<or> isDigit c)"

text \<open>
  STRING is \<^verbatim>\<open>"(?:[^"\\]|\\.)*"\<close>. \<^verbatim>\<open>scanString\<close> reads on from behind the opening
  quote and gives the number of characters up to and including the closing quote.
\<close>

fun scanString :: "string \<Rightarrow> nat option" where
  "scanString [] = None"
| "scanString [c] = (if c = CHR 0x22 then Some 1 else None)"
| "scanString (c # d # cs) =
     (if c = CHR 0x22 then Some 1
      else if c = CHR 0x5C then map_option (\<lambda>n. n + 2) (scanString cs)
      else map_option Suc (scanString (d # cs)))"

text \<open>NUMBER is \<^verbatim>\<open>[0-9]+(\.[0-9]+)?\<close>; \<^verbatim>\<open>scanNumber\<close> reads on from behind the first digit.\<close>

definition scanNumber :: "string \<Rightarrow> string" where
  "scanNumber s =
     (let ip = takeWhile isDigit s; r = dropWhile isDigit s
      in if r \<noteq> [] \<and> hd r = CHR ''.'' \<and> takeWhile isDigit (tl r) \<noteq> []
         then ip @ CHR ''.'' # takeWhile isDigit (tl r) else ip)"

lemma length_dropWhile_tl: "s \<noteq> [] \<Longrightarrow> length (dropWhile P (tl s)) < length s"
  by (cases s) (auto simp: less_Suc_eq_le length_dropWhile_le)

function tokenize :: "string \<Rightarrow> token list option" where
  "tokenize s =
     (if s = [] then Some []
      else if isSpace (hd s) then tokenize (tl s)
      else if hd s = CHR 0x22
      then (case scanString (tl s) of
              None \<Rightarrow> None
            | Some n \<Rightarrow>
                map_option ((#) (Token ''STRING'' (hd s # take n (tl s)))) (tokenize (drop n (tl s))))
      else if isDigit (hd s)
      then map_option ((#) (Token ''NUMBER'' (hd s # scanNumber (tl s))))
             (tokenize (drop (length (scanNumber (tl s))) (tl s)))
      else if hd s = CHR ''$'' \<and> tl s \<noteq> [] \<and> isIdentStart (hd (tl s))
      then map_option ((#) (Token ''VARIABLE'' (hd s # takeWhile isIdentChar (tl s))))
             (tokenize (dropWhile isIdentChar (tl s)))
      else if HasPrefix s ''http://'' \<or> HasPrefix s ''https://''
      then map_option ((#) (Token ''URL'' (hd s # takeWhile (\<lambda>c. \<not> isSpace c) (tl s))))
             (tokenize (dropWhile (\<lambda>c. \<not> isSpace c) (tl s)))
      else if isIdentStart (hd s)
      then map_option
             ((#) (Token (if hd s # takeWhile isIdentChar (tl s) \<in> set keywordTokens
                          then hd s # takeWhile isIdentChar (tl s) else ''ID'')
                         (hd s # takeWhile isIdentChar (tl s))))
             (tokenize (dropWhile isIdentChar (tl s)))
      else None)"
  by pat_completeness auto
termination
  by (relation "measure length") (auto simp: less_Suc_eq_le length_dropWhile_tl)

declare tokenize.simps [simp del]

text \<open>
  The rules of \<^verbatim>\<open>setupGrammar\<close> for the covered statements, each with its action.
\<close>

definition isMethod :: "string \<Rightarrow> bool" where
  "isMethod t = (t \<in> set [''GET'', ''POST'', ''PUT'', ''DELETE'', ''PATCH'', ''HEAD'', ''OPTIONS'',
                            ''CONNECT'', ''TRACE''])"

definition isExtractType :: "string \<Rightarrow> bool" where
  "isExtractType t = (t \<in> set [''jsonpath'', ''xpath'', ''regex'', ''header'', ''status''])"

definition syntaxError :: "golib \<Rightarrow> string \<Rightarrow> error" where
  "syntaxError lib input = Errorf (dsl_syntaxError lib input)"

definition actionError :: "golib \<Rightarrow> error \<Rightarrow> error" where
  "actionError lib e = (case e of Errorf m \<Rightarrow> Errorf (dsl_actionError lib m) | Panic m \<Rightarrow> Panic m)"

text \<open>
  A rule gives the action to run, or \<^verbatim>\<open>None\<close> where the tokens do not match it.
\<close>

definition valueRule :: "golib \<Rightarrow> token \<Rightarrow> val action option" where
  "valueRule lib t =
     (case t of Token k x \<Rightarrow>
        if k = ''STRING'' then Some (valueString lib x)
        else if k = ''NUMBER'' then Some (valueNumber x)
        else if k = ''VARIABLE'' then Some (valueVariable x)
        else None)"

definition urlString :: "golib \<Rightarrow> string \<Rightarrow> string action" where
  "urlString lib arg0 self = (Inr (expandVariables lib self (unquoteString arg0)), self)"

definition urlDirect :: "golib \<Rightarrow> string \<Rightarrow> string action" where
  "urlDirect lib arg0 self = (Inr (expandVariables lib self arg0), self)"

definition urlVariable :: "string \<Rightarrow> string action" where
  "urlVariable arg0 self =
     (case map_of (variables self) (TrimPrefix arg0 ''$'') of
        Some v \<Rightarrow> (Inr (Sprintf_v v), self)
      | None \<Rightarrow> (Inl (Errorf (''variable $'' @ TrimPrefix arg0 ''$'' @ '' not found'')), self))"

definition urlValueRule :: "golib \<Rightarrow> token \<Rightarrow> string action option" where
  "urlValueRule lib t =
     (case t of Token k x \<Rightarrow>
        if k = ''STRING'' then Some (urlString lib x)
        else if k = ''URL'' then Some (urlDirect lib x)
        else if k = ''VARIABLE'' then Some (urlVariable x)
        else None)"

text \<open>An action that takes the value of another rule runs after that rule's action.\<close>

definition andThen :: "'a action \<Rightarrow> ('a \<Rightarrow> 'b action) \<Rightarrow> 'b action" where
  "andThen act k self =
     (case act self of
        (Inl e, self') \<Rightarrow> (Inl e, self')
      | (Inr v, self') \<Rightarrow> k v self')"

fun statement :: "golib \<Rightarrow> token list \<Rightarrow> val action option" where
  "statement lib [Token k0 x0] =
     (if k0 = ''break'' then Some breakCmd
      else if k0 = ''continue'' then Some continueCmd
      else None)"
| "statement lib [Token k0 x0, Token k1 x1] =
     (if k0 = ''print'' \<and> k1 = ''VARIABLE'' then Some (printVariable x1)
      else if k0 = ''print'' \<and> k1 = ''STRING'' then Some (printString lib x1)
      else if isMethod k0
      then map_option (\<lambda>urlValue. andThen urlValue (httpSimple lib x0)) (urlValueRule lib (Token k1 x1))
      else None)"
| "statement lib [Token k0 x0, Token k1 x1, Token k2 x2] =
     (if (k0 = ''set'' \<or> k0 = ''var'') \<and> k1 = ''VARIABLE''
      then map_option (\<lambda>value. andThen value (setVariable x1)) (valueRule lib (Token k2 x2))
      else None)"
| "statement lib [Token k0 x0, Token k1 x1, Token k2 x2, Token k3 x3] =
     (if k0 = ''extract'' \<and> isExtractType k1 \<and> k2 = ''as'' \<and> k3 = ''VARIABLE''
      then Some (extractVariableNoPattern lib x1 x3)
      else None)"
| "statement lib [Token k0 x0, Token k1 x1, Token k2 x2, Token k3 x3, Token k4 x4] =
     (if k0 = ''extract'' \<and> isExtractType k1 \<and> k2 = ''STRING'' \<and> k3 = ''as'' \<and> k4 = ''VARIABLE''
      then Some (extractVariable lib x1 x2 x4)
      else None)"
| "statement lib ts = None"

text \<open>
  \<^verbatim>\<open>ParseWithContext\<close> hands the input to the library's \<^verbatim>\<open>Parse\<close> and returns its output
  or its error, the text of which is the library's. \<^verbatim>\<open>parsed\<close> is what \<^verbatim>\<open>Parse\<close> makes
  of the result of the statement's action.
\<close>

definition parsed :: "golib \<Rightarrow> (error + val) \<times> HTTPDSLv3 \<Rightarrow> (error + val) \<times> HTTPDSLv3" where
  "parsed lib r =
     (case r of
        (Inl e, self') \<Rightarrow> (Inl (actionError lib e), self')
      | (Inr v, self') \<Rightarrow> (Inr v, self'))"

definition ParseWithContext :: "golib \<Rightarrow> string \<Rightarrow> val action" where
  "ParseWithContext lib input self =
     (case tokenize input of
        None \<Rightarrow> (Inl (syntaxError lib input), self)
      | Some ts \<Rightarrow>
          (case statement lib ts of
             None \<Rightarrow> (Inl (syntaxError lib input), self)
           | Some act \<Rightarrow> parsed lib (act self)))"

definition examplelib :: golib where
  "examplelib =
     \<lparr>rangeOrder = (\<lambda>ks. ks), url_Parse = Some,
      json_Unmarshal = (\<lambda>s. if s = ''[]'' then Some (VList []) else None),
      json_Marshal = Sprintf_v,
      regexp_Compile = (\<lambda>p. None),
      CanonicalMIMEHeaderKey = (\<lambda>k. k),
      dsl_syntaxError = (\<lambda>input. ''parse error: '' @ input),
      dsl_actionError = (\<lambda>msg. ''parsing error: '' @ msg)\<rparr>"

section \<open>Conditions of the block preprocessor\<close>

lemma length_TrimSpace: "length (TrimSpace s) \<le> length s"
  unfolding TrimSpace_def
  by (metis length_dropWhile_le length_rev le_trans)

lemma split_from_length:
  "p \<in> set (split_from sep cur s) \<Longrightarrow> length p \<le> length cur + length s"
proof (induction sep cur s rule: split_from.induct)
  case (1 sep cur s)
  show ?case
  proof (cases "s = []")
    case True
    with "1.prems" show ?thesis by (simp add: split_from.simps)
  next
    case False
    note ne = this
    show ?thesis
    proof (cases "sep \<noteq> [] \<and> HasPrefix s sep")
      case True
      with ne "1.prems" have "p = cur \<or> p \<in> set (split_from sep [] (drop (length sep) s))"
        by (simp add: split_from.simps [of sep cur s])
      then show ?thesis
      proof
        assume "p = cur" then show ?thesis by simp
      next
        assume "p \<in> set (split_from sep [] (drop (length sep) s))"
        with "1.IH"(1) [OF ne True] have "length p \<le> length (drop (length sep) s)" by simp
        then show ?thesis by simp
      qed
    next
      case False
      with ne "1.prems" have "p \<in> set (split_from sep (cur @ [hd s]) (tl s))"
        by (simp add: split_from.simps [of sep cur s])
      with "1.IH"(2) [OF ne False] have "length p \<le> length (cur @ [hd s]) + length (tl s)" .
      with ne show ?thesis by (cases s) simp_all
    qed
  qed
qed

lemma split_from_shorter:
  "sep \<noteq> [] \<Longrightarrow> p \<in> set (split_from sep cur s) \<Longrightarrow>
     length p < length cur + length s \<or> split_from sep cur s = [cur @ s]"
proof (induction sep cur s rule: split_from.induct)
  case (1 sep cur s)
  show ?case
  proof (cases "s = []")
    case True
    then show ?thesis by (simp add: split_from.simps)
  next
    case False
    note ne = this
    show ?thesis
    proof (cases "sep \<noteq> [] \<and> HasPrefix s sep")
      case True
      with ne "1.prems" have "p = cur \<or> p \<in> set (split_from sep [] (drop (length sep) s))"
        by (simp add: split_from.simps [of sep cur s])
      then show ?thesis
      proof
        assume "p = cur" with ne show ?thesis by simp
      next
        assume "p \<in> set (split_from sep [] (drop (length sep) s))"
        then have "length p \<le> length (drop (length sep) s)"
          using split_from_length by fastforce
        then have lp: "length p \<le> length s - length sep" by simp
        from ne have ls: "0 < length s" by simp
        from True have lsep: "0 < length sep" by simp
        from lp ls lsep have "length p < length cur + length s" by linarith
        then show ?thesis ..
      qed
    next
      case False
      with ne "1.prems" have in': "p \<in> set (split_from sep (cur @ [hd s]) (tl s))"
        and eq: "split_from sep cur s = split_from sep (cur @ [hd s]) (tl s)"
        by (simp_all add: split_from.simps [of sep cur s])
      from "1.IH"(2) [OF ne False "1.prems"(1) in']
      show ?thesis using ne eq by (cases s) auto
    qed
  qed
qed

lemma index_from_shift: "(0 \<le> index_from i s sub) = (0 \<le> index_from j s sub)"
proof (induction i s sub arbitrary: j rule: index_from.induct)
  case (1 i s sub)
  show ?case
  proof (cases "HasPrefix s sub")
    case True
    then show ?thesis by (simp add: index_from.simps [of _ s sub])
  next
    case False
    show ?thesis
    proof (cases "s = []")
      case True
      with False have "index_from k s sub = - 1" for k
        by (subst index_from.simps) simp
      then show ?thesis by simp
    next
      case ne: False
      from "1.IH" [OF False ne, of "Suc j"] False ne show ?thesis
        by (simp add: index_from.simps [of _ s sub])
    qed
  qed
qed

lemma split_from_found:
  "sep \<noteq> [] \<Longrightarrow> 0 \<le> index_from 0 s sep \<Longrightarrow> split_from sep cur s \<noteq> [cur @ s]"
proof (induction sep cur s rule: split_from.induct)
  case (1 sep cur s)
  show ?case
  proof (cases "s = []")
    case True
    with "1.prems"(1) have "index_from 0 s sep = - 1"
      by (subst index_from.simps) (simp add: HasPrefix_def)
    with "1.prems"(2) show ?thesis by simp
  next
    case False
    note ne = this
    show ?thesis
    proof (cases "sep \<noteq> [] \<and> HasPrefix s sep")
      case True
      with ne show ?thesis by (simp add: split_from.simps [of sep cur s])
    next
      case False
      with "1.prems" ne have "0 \<le> index_from (Suc 0) (tl s) sep"
        by (simp add: index_from.simps [of 0 s sep])
      then have "0 \<le> index_from 0 (tl s) sep"
        using index_from_shift by blast
      from "1.IH"(2) [OF ne False "1.prems"(1) this] ne False show ?thesis
        by (simp add: split_from.simps [of sep cur s])
    qed
  qed
qed

lemma Split_part_shorter:
  "sep \<noteq> [] \<Longrightarrow> Contains s sep \<Longrightarrow> part \<in> set (Split s sep) \<Longrightarrow>
     length (TrimSpace part) < length s"
proof -
  assume sep: "sep \<noteq> []" and c: "Contains s sep" and p: "part \<in> set (Split s sep)"
  from p sep have p': "part \<in> set (split_from sep [] s)" by (simp add: Split_def)
  from c have "0 \<le> index_from 0 s sep" by (simp add: Contains_def Index_def)
  with sep have "split_from sep [] s \<noteq> [[] @ s]" by (rule split_from_found)
  with split_from_shorter [OF sep p'] have "length part < length s" by simp
  with length_TrimSpace [of part] show ?thesis by simp
qed

text \<open>\<^verbatim>\<open>EvaluateSimpleCondition\<close>: one variable, or one comparison of three fields.\<close>

definition truthy :: "val \<Rightarrow> bool" where
  "truthy v =
     (case v of
        VBool b \<Rightarrow> b
      | VInt i \<Rightarrow> i \<noteq> 0
      | VFloat r \<Rightarrow> r \<noteq> 0
      | VStr s \<Rightarrow> s \<noteq> '''' \<and> s \<noteq> ''0'' \<and> s \<noteq> ''false''
      | _ \<Rightarrow> v \<noteq> VNil)"

definition operand :: "store \<Rightarrow> string \<Rightarrow> val option" where
  "operand vars side =
     (if HasPrefix side ''$'' then map_of vars (TrimPrefix side ''$'') else Some (VStr side))"

definition EvaluateSimpleCondition :: "store \<Rightarrow> string \<Rightarrow> bool" where
  "EvaluateSimpleCondition vars conditionStr =
     (let parts = Fields conditionStr
      in if length parts = 1
         then (case map_of vars (TrimPrefix (parts ! 0) ''$'') of
                 Some v \<Rightarrow> truthy v
               | None \<Rightarrow> False)
         else if length parts \<noteq> 3 then False
         else (case operand vars (parts ! 0) of
                 None \<Rightarrow> False
               | Some leftVal \<Rightarrow>
                   (case operand vars (parts ! 2) of
                      None \<Rightarrow> False
                    | Some rightVal \<Rightarrow> CompareValues leftVal (parts ! 1) rightVal)))"

function EvaluateCondition :: "store \<Rightarrow> string \<Rightarrow> bool" where
  "EvaluateCondition vars conditionStr =
     (if Contains conditionStr '' OR ''
      then list_ex (\<lambda>part. EvaluateCondition vars (TrimSpace part)) (Split conditionStr '' OR '')
      else if Contains conditionStr '' AND ''
      then list_all (\<lambda>part. EvaluateCondition vars (TrimSpace part)) (Split conditionStr '' AND '')
      else EvaluateSimpleCondition vars conditionStr)"
  by pat_completeness auto
termination
  by (relation "measure (\<lambda>(vars, s). length s)") (auto intro: Split_part_shorter)

declare EvaluateCondition.simps [simp del]

text \<open>
  The condition of a \<^verbatim>\<open>while\<close> line and of a single-line \<^verbatim>\<open>if ... then ... else\<close> is
  evaluated in place by \<^verbatim>\<open>ParseWithBlockSupport\<close>, twice the same code: three fields,
  the first the name of a variable, which is read as a number, the third a number.
  A failing \<^verbatim>\<open>Sscanf\<close> leaves its target at zero.
\<close>

definition inlineNumber :: "val \<Rightarrow> rat" where
  "inlineNumber v =
     (case v of
        VInt i \<Rightarrow> of_int i
      | VFloat r \<Rightarrow> r
      | VStr s \<Rightarrow> (case Sscanf_f s of Some n \<Rightarrow> n | None \<Rightarrow> 0)
      | _ \<Rightarrow> 0)"

definition inlineCondition :: "store \<Rightarrow> string \<Rightarrow> bool" where
  "inlineCondition vars conditionStr =
     (let parts = Fields conditionStr
      in if length parts = 3
         then (case map_of vars (TrimPrefix (parts ! 0) ''$'') of
                 None \<Rightarrow> False
               | Some v \<Rightarrow>
                   (case cmp_switch (parts ! 1) (inlineNumber v)
                           (case Sscanf_f (parts ! 2) of Some n \<Rightarrow> n | None \<Rightarrow> 0) of
                      Some b \<Rightarrow> b
                    | None \<Rightarrow> False))
         else False)"

section \<open>The block preprocessor\<close>

text \<open>
  \<^verbatim>\<open>ParseWithBlockSupport\<close>, \<^verbatim>\<open>ProcessLoopBody\<close> and \<^verbatim>\<open>ProcessIfBlockWithControl\<close>
  call one another, and a \<^verbatim>\<open>while\<close> loop need not end. The functions that loop take
  fuel: one unit for every turn of a loop and for every nested call; \<^verbatim>\<open>None\<close> says
  that the fuel ran out before the code returned. A function that only calls the
  others takes them as arguments (\<^verbatim>\<open>pwbs\<close>: \<^verbatim>\<open>ParseWithBlockSupport\<close>, \<^verbatim>\<open>plb\<close>:
  \<^verbatim>\<open>ProcessLoopBody\<close>, both at the fuel that is left, \<^verbatim>\<open>exec\<close>: \<^verbatim>\<open>ParseWithContext\<close>).

  A Go function that returns \<^verbatim>\<open>(results, err)\<close> returns both, also on an error.
  A panic is passed on unchanged: no function of the preprocessor recovers.
\<close>

type_synonym stmt_exec = "string \<Rightarrow> HTTPDSLv3 \<Rightarrow> (error + val) \<times> HTTPDSLv3"

type_synonym block_result = "((val list \<times> error option) \<times> HTTPDSLv3) option"

record LoopResult =
  Results :: "val list"
  ShouldBreak :: bool
  ShouldContinue :: bool

type_synonym loop_body_result = "((error + LoopResult) \<times> HTTPDSLv3) option"

definition newLoopResult :: LoopResult where
  "newLoopResult = \<lparr>Results = [], ShouldBreak = False, ShouldContinue = False\<rparr>"

definition wrapError :: "string \<Rightarrow> error \<Rightarrow> error" where
  "wrapError prefix e = (case e of Errorf m \<Rightarrow> Errorf (prefix @ m) | Panic m \<Rightarrow> Panic m)"

definition nonEmpty :: "val \<Rightarrow> bool" where
  "nonEmpty res = (res \<noteq> VNil \<and> res \<noteq> VStr '''')"

definition isHTTPMethod :: "string \<Rightarrow> bool" where
  "isHTTPMethod line =
     list_ex (\<lambda>method. HasPrefix line method)
       [''GET '', ''POST '', ''PUT '', ''DELETE '', ''PATCH '', ''HEAD '', ''OPTIONS '',
        ''CONNECT '', ''TRACE '']"

definition isIfLine :: "string \<Rightarrow> bool" where
  "isIfLine line = (HasPrefix line ''if '' \<and> HasSuffix line '' then'')"

subsection \<open>Finding the end of a block\<close>

fun extractIf_from :: "string list \<Rightarrow> int \<Rightarrow> string list \<Rightarrow> nat \<Rightarrow> (string list \<times> nat) option" where
  "extractIf_from [] nestLevel block i = None"
| "extractIf_from (line # rest) nestLevel block i =
     (if (if isIfLine (TrimSpace line) then nestLevel + 1
          else if TrimSpace line = ''endif'' then nestLevel - 1 else nestLevel) = 0
      then Some (block @ [line], i)
      else extractIf_from rest
             (if isIfLine (TrimSpace line) then nestLevel + 1
              else if TrimSpace line = ''endif'' then nestLevel - 1 else nestLevel)
             (block @ [line]) (Suc i))"

definition ExtractIfBlock :: "string list \<Rightarrow> nat \<Rightarrow> (string list \<times> nat) option" where
  "ExtractIfBlock lines startIdx =
     (if startIdx \<ge> length lines then None
      else extractIf_from (drop startIdx lines) 0 [] startIdx)"

fun extractLoop_from :: "string list \<Rightarrow> int \<Rightarrow> string list \<Rightarrow> nat \<Rightarrow> (string list \<times> nat) option" where
  "extractLoop_from [] nestLevel block i = None"
| "extractLoop_from (line # rest) nestLevel block i =
     (if (if HasSuffix (TrimSpace line) '' do'' then nestLevel + 1
          else if TrimSpace line = ''endloop'' then nestLevel - 1 else nestLevel) = 0
      then Some (block @ [line], i)
      else extractLoop_from rest
             (if HasSuffix (TrimSpace line) '' do'' then nestLevel + 1
              else if TrimSpace line = ''endloop'' then nestLevel - 1 else nestLevel)
             (block @ [line]) (Suc i))"

definition ExtractLoopBlock :: "string list \<Rightarrow> nat \<Rightarrow> (string list \<times> nat) option" where
  "ExtractLoopBlock lines startIdx =
     (if startIdx \<ge> length lines then None
      else extractLoop_from (drop startIdx lines) 0 [] startIdx)"

subsection \<open>\<^verbatim>\<open>ProcessIfBlockWithControl\<close>\<close>

definition addLine :: "bool \<Rightarrow> string \<Rightarrow> string list \<times> string list \<Rightarrow> string list \<times> string list" where
  "addLine inElse line blocks =
     (if inElse then (fst blocks, snd blocks @ [line]) else (fst blocks @ [line], snd blocks))"

text \<open>
  The loop over \<^verbatim>\<open>block[1:]\<close> that parts the lines into \<^verbatim>\<open>thenBlock\<close> and
  \<^verbatim>\<open>elseBlock\<close>; the lines are stored trimmed.
\<close>

fun splitThenElse :: "string list \<Rightarrow> int \<Rightarrow> bool \<Rightarrow> string list \<times> string list
                      \<Rightarrow> string list \<times> string list" where
  "splitThenElse [] nestLevel inElse blocks = blocks"
| "splitThenElse (l # ls) nestLevel inElse blocks =
     (if isIfLine (TrimSpace l)
      then splitThenElse ls (nestLevel + 1) inElse (addLine inElse (TrimSpace l) blocks)
      else if TrimSpace l = ''endif''
      then (if nestLevel = 0 then blocks
            else splitThenElse ls (nestLevel - 1) inElse (addLine inElse (TrimSpace l) blocks))
      else if TrimSpace l = ''else'' \<and> nestLevel = 0 then splitThenElse ls nestLevel True blocks
      else if TrimSpace l = ''else'' \<and> nestLevel > 0
      then splitThenElse ls nestLevel inElse (addLine inElse (TrimSpace l) blocks)
      else if TrimSpace l \<noteq> '''' \<and> \<not> HasPrefix (TrimSpace l) ''#''
      then splitThenElse ls nestLevel inElse (addLine inElse (TrimSpace l) blocks)
      else splitThenElse ls nestLevel inElse blocks)"

text \<open>
  The closing loop over \<^verbatim>\<open>blockToExecute\<close>: the first line that is \<^verbatim>\<open>break\<close> or
  \<^verbatim>\<open>continue\<close> sets the flag of the result.
\<close>

fun scanControl :: "string list \<Rightarrow> LoopResult \<Rightarrow> LoopResult" where
  "scanControl [] result = result"
| "scanControl (line # rest) result =
     (if TrimSpace line = ''break'' then result\<lparr>ShouldBreak := True\<rparr>
      else if TrimSpace line = ''continue'' then result\<lparr>ShouldContinue := True\<rparr>
      else scanControl rest result)"

definition ProcessIfBlockWithControl ::
    "(string \<Rightarrow> HTTPDSLv3 \<Rightarrow> block_result) \<Rightarrow> string list \<Rightarrow> HTTPDSLv3 \<Rightarrow> loop_body_result" where
  "ProcessIfBlockWithControl pwbs block self =
     (if length block < 2 then Some (Inl (Errorf ''invalid if block: too short''), self)
      else if \<not> HasPrefix (TrimSpace (block ! 0)) ''if '' \<or> \<not> HasSuffix (TrimSpace (block ! 0)) '' then''
      then Some (Inl (Errorf ''invalid if block: missing if/then''), self)
      else
        (let conditionStr = TrimSuffix (TrimPrefix (TrimSpace (block ! 0)) ''if '') '' then'';
             shouldExecute = EvaluateCondition (variables self) conditionStr;
             blocks = splitThenElse (tl block) 0 False ([], []);
             blockToExecute = (if shouldExecute then fst blocks else snd blocks)
         in if length blockToExecute > 0
            then (case pwbs (Join blockToExecute [CHR 0x0A]) self of
                    None \<Rightarrow> None
                  | Some ((blockResult, Some (Panic m)), self') \<Rightarrow> Some (Inl (Panic m), self')
                  | Some ((blockResult, Some (Errorf errMsg)), self') \<Rightarrow>
                      (if Contains errMsg ''break''
                       then Some (Inr (newLoopResult\<lparr>ShouldBreak := True\<rparr>), self')
                       else if Contains errMsg ''continue''
                       then Some (Inr (newLoopResult\<lparr>ShouldContinue := True\<rparr>), self')
                       else Some (Inl (Errorf errMsg), self'))
                  | Some ((blockResult, None), self') \<Rightarrow>
                      Some (Inr (scanControl blockToExecute (newLoopResult\<lparr>Results := blockResult\<rparr>)),
                            self'))
            else Some (Inr newLoopResult, self)))"

subsection \<open>\<^verbatim>\<open>ProcessLoopBody\<close>\<close>

definition isLoopLine :: "string \<Rightarrow> bool" where
  "isLoopLine trimmed =
     (HasPrefix trimmed ''while '' \<and> HasSuffix trimmed '' do''
      \<or> HasPrefix trimmed ''foreach '' \<and> Contains trimmed '' in '' \<and> HasSuffix trimmed '' do''
      \<or> HasPrefix trimmed ''repeat '' \<and> Contains trimmed '' times do'')"

text \<open>The nested loop of \<^verbatim>\<open>ProcessLoopBody\<close>: every line of the block is parsed on its own.\<close>

fun nestedLoopLines :: "(string \<Rightarrow> HTTPDSLv3 \<Rightarrow> block_result) \<Rightarrow> string list \<Rightarrow> val list
                        \<Rightarrow> HTTPDSLv3 \<Rightarrow> ((error + val list) \<times> HTTPDSLv3) option" where
  "nestedLoopLines pwbs [] loopResults self = Some (Inr loopResults, self)"
| "nestedLoopLines pwbs (loopLine # rest) loopResults self =
     (case pwbs loopLine self of
        None \<Rightarrow> None
      | Some ((res, Some err), self') \<Rightarrow> Some (Inl err, self')
      | Some ((res, None), self') \<Rightarrow> nestedLoopLines pwbs rest (loopResults @ [VList res]) self')"

fun plb_loop :: "(string \<Rightarrow> HTTPDSLv3 \<Rightarrow> block_result) \<Rightarrow> stmt_exec \<Rightarrow> nat \<Rightarrow> string list \<Rightarrow> nat
                 \<Rightarrow> LoopResult \<Rightarrow> HTTPDSLv3 \<Rightarrow> loop_body_result" where
  "plb_loop pwbs exec 0 body i result self = None"
| "plb_loop pwbs exec (Suc fuel) body i result self =
     (if i \<ge> length body then Some (Inr result, self)
      else if TrimSpace (body ! i) = '''' \<or> HasPrefix (TrimSpace (body ! i)) ''#''
      then plb_loop pwbs exec fuel body (Suc i) result self
      else if TrimSpace (body ! i) = ''break'' then Some (Inr (result\<lparr>ShouldBreak := True\<rparr>), self)
      else if TrimSpace (body ! i) = ''continue''
      then Some (Inr (result\<lparr>ShouldContinue := True\<rparr>), self)
      else if isIfLine (TrimSpace (body ! i))
      then (case ExtractIfBlock body i of
              None \<Rightarrow> Some (Inl (Errorf (''malformed if block at line '' @ Itoa (int i + 1))), self)
            | Some (ifBlock, endIdx) \<Rightarrow>
                (case ProcessIfBlockWithControl pwbs ifBlock self of
                   None \<Rightarrow> None
                 | Some (Inl err, self') \<Rightarrow> Some (Inl err, self')
                 | Some (Inr ifResult, self') \<Rightarrow>
                     if ShouldBreak ifResult
                     then Some (Inr (result\<lparr>Results := Results result @ Results ifResult,
                                            ShouldBreak := True\<rparr>), self')
                     else if ShouldContinue ifResult
                     then Some (Inr (result\<lparr>Results := Results result @ Results ifResult,
                                            ShouldContinue := True\<rparr>), self')
                     else plb_loop pwbs exec fuel body (Suc endIdx)
                            (result\<lparr>Results := Results result @ Results ifResult\<rparr>) self'))
      else if isLoopLine (TrimSpace (body ! i))
      then (case ExtractLoopBlock body i of
              None \<Rightarrow> Some (Inl (Errorf (''malformed loop block at line '' @ Itoa (int i + 1))), self)
            | Some (loopBlock, endIdx) \<Rightarrow>
                (case nestedLoopLines pwbs loopBlock [] self of
                   None \<Rightarrow> None
                 | Some (Inl err, self') \<Rightarrow> Some (Inl err, self')
                 | Some (Inr loopResults, self') \<Rightarrow>
                     plb_loop pwbs exec fuel body (Suc endIdx)
                       (result\<lparr>Results := Results result @ loopResults\<rparr>) self'))
      else (case exec (TrimSpace (body ! i)) self of
              (Inl err, self') \<Rightarrow>
                Some (Inl (wrapError (''error processing line '' @ Itoa (int i + 1) @ '': '') err), self')
            | (Inr lineResult, self') \<Rightarrow>
                plb_loop pwbs exec fuel body (Suc i)
                  (if nonEmpty lineResult then result\<lparr>Results := Results result @ [lineResult]\<rparr>
                   else result)
                  self'))"

subsection \<open>The loops of \<^verbatim>\<open>ParseWithBlockSupport\<close>\<close>

text \<open>
  The three loop kinds collect their body with the same code: lines are stored
  trimmed, and an \<^verbatim>\<open>endloop\<close> is never stored, also not the one of a nested loop.
  The result is the body and the number of lines read before the closing
  \<^verbatim>\<open>endloop\<close> (or the end of the script).
\<close>

fun collectLoopBody :: "string list \<Rightarrow> int \<Rightarrow> string list \<Rightarrow> nat \<Rightarrow> string list \<times> nat" where
  "collectLoopBody [] nestLevel loopBody k = (loopBody, k)"
| "collectLoopBody (l # ls) nestLevel loopBody k =
     (if TrimSpace l = ''endloop'' \<and> nestLevel - 1 = 0 then (loopBody, k)
      else collectLoopBody ls
             (if TrimSpace l = ''endloop'' then nestLevel - 1
              else if HasSuffix (TrimSpace l) '' do'' then nestLevel + 1 else nestLevel)
             (if TrimSpace l \<noteq> '''' \<and> TrimSpace l \<noteq> ''endloop'' \<and> \<not> HasPrefix (TrimSpace l) ''#''
              then loopBody @ [TrimSpace l] else loopBody)
             (Suc k))"

text \<open>The body of an \<^verbatim>\<open>if\<close> block; the lines are stored as they are.\<close>

fun collectIfBlock :: "string list \<Rightarrow> int \<Rightarrow> bool \<Rightarrow> string list \<times> string list \<Rightarrow> nat
                       \<Rightarrow> (string list \<times> string list) \<times> nat" where
  "collectIfBlock [] nestLevel inElse blocks k = (blocks, k)"
| "collectIfBlock (l # ls) nestLevel inElse blocks k =
     (if TrimSpace l = ''endif''
      then (if nestLevel - 1 = 0 then (blocks, k)
            else collectIfBlock ls (nestLevel - 1) inElse (addLine inElse l blocks) (Suc k))
      else if isIfLine (TrimSpace l)
      then collectIfBlock ls (nestLevel + 1) inElse (addLine inElse l blocks) (Suc k)
      else if TrimSpace l = ''else'' \<and> nestLevel = 1 then collectIfBlock ls nestLevel True blocks (Suc k)
      else if TrimSpace l = ''else'' \<and> nestLevel > 1
      then collectIfBlock ls nestLevel inElse (addLine inElse l blocks) (Suc k)
      else if TrimSpace l \<noteq> '''' \<and> \<not> HasPrefix (TrimSpace l) ''#''
      then collectIfBlock ls nestLevel inElse (addLine inElse l blocks) (Suc k)
      else collectIfBlock ls nestLevel inElse blocks (Suc k))"

definition truncate :: "rat \<Rightarrow> int" where
  "truncate r = (if r < 0 then \<lceil>r\<rceil> else \<lfloor>r\<rfloor>)"

definition repeatCount :: "store \<Rightarrow> string \<Rightarrow> int" where
  "repeatCount vars countStr =
     (if HasPrefix countStr ''$''
      then (case map_of vars (TrimPrefix countStr ''$'') of
              Some (VInt v) \<Rightarrow> v
            | Some (VFloat v) \<Rightarrow> truncate v
            | Some (VStr v) \<Rightarrow> (case Sscanf_d v of Some n \<Rightarrow> n | None \<Rightarrow> 0)
            | _ \<Rightarrow> 0)
      else (case Sscanf_d countStr of Some n \<Rightarrow> n | None \<Rightarrow> 0))"

fun repeat_loop :: "(string list \<Rightarrow> HTTPDSLv3 \<Rightarrow> loop_body_result) \<Rightarrow> nat \<Rightarrow> int \<Rightarrow> string list
                    \<Rightarrow> int \<Rightarrow> int \<Rightarrow> val list \<Rightarrow> HTTPDSLv3 \<Rightarrow> block_result" where
  "repeat_loop plb 0 count loopBody iteration actualIterations results self = None"
| "repeat_loop plb (Suc fuel) count loopBody iteration actualIterations results self =
     (if iteration < count
      then (case plb loopBody (SetVariable ''_iteration'' (VInt (iteration + 1))
                                 (SetVariable ''_index'' (VInt iteration) self)) of
              None \<Rightarrow> None
            | Some (Inl err, self') \<Rightarrow>
                Some ((results,
                       Some (wrapError (''error in loop iteration '' @ Itoa (iteration + 1) @ '': '') err)),
                      self')
            | Some (Inr loopResult, self') \<Rightarrow>
                if ShouldContinue loopResult
                then repeat_loop plb fuel count loopBody (iteration + 1) (actualIterations + 1)
                       (results @ filter nonEmpty (Results loopResult)) self'
                else if ShouldBreak loopResult
                then Some ((results @ filter nonEmpty (Results loopResult)
                            @ [VStr (''Repeated '' @ Itoa (actualIterations + 1) @ '' times'')], None),
                           self')
                else repeat_loop plb fuel count loopBody (iteration + 1) (actualIterations + 1)
                       (results @ filter nonEmpty (Results loopResult)) self')
      else Some ((results @ [VStr (''Repeated '' @ Itoa actualIterations @ '' times'')], None), self))"

definition maxIterations :: int where
  "maxIterations = 1000"

definition while_exit :: "int \<Rightarrow> val list \<Rightarrow> HTTPDSLv3 \<Rightarrow> block_result" where
  "while_exit iterations results self =
     (if iterations \<ge> maxIterations
      then Some ((results,
                  Some (Errorf (''while loop exceeded maximum iterations ('' @ Itoa maxIterations @ '')''))),
                 self)
      else Some ((results @ [VStr (''While loop executed '' @ Itoa iterations @ '' times'')], None),
                 self))"

fun while_loop :: "(string list \<Rightarrow> HTTPDSLv3 \<Rightarrow> loop_body_result) \<Rightarrow> nat \<Rightarrow> string \<Rightarrow> string list
                   \<Rightarrow> int \<Rightarrow> val list \<Rightarrow> HTTPDSLv3 \<Rightarrow> block_result" where
  "while_loop plb 0 conditionStr loopBody iterations results self = None"
| "while_loop plb (Suc fuel) conditionStr loopBody iterations results self =
     (if iterations < maxIterations
      then (if \<not> inlineCondition (variables self) conditionStr
            then while_exit iterations results self
            else (case plb loopBody (SetVariable ''_iteration'' (VInt (iterations + 1)) self) of
                    None \<Rightarrow> None
                  | Some (Inl err, self') \<Rightarrow>
                      Some ((results,
                             Some (wrapError (''error in while loop iteration ''
                                              @ Itoa (iterations + 1) @ '': '') err)),
                            self')
                  | Some (Inr loopResult, self') \<Rightarrow>
                      if ShouldContinue loopResult
                      then while_loop plb fuel conditionStr loopBody iterations
                             (results @ filter nonEmpty (Results loopResult)) self'
                      else if ShouldBreak loopResult
                      then while_exit iterations (results @ filter nonEmpty (Results loopResult)) self'
                      else while_loop plb fuel conditionStr loopBody (iterations + 1)
                             (results @ filter nonEmpty (Results loopResult)) self'))
      else while_exit iterations results self)"

definition listItems :: "string \<Rightarrow> val list" where
  "listItems listStr =
     (if TrimSpace (Trim listStr ''[]'') = '''' then []
      else map VStr
             (filter (\<lambda>item. item \<noteq> '''')
                (map (\<lambda>part. Trim (TrimSpace part) [CHR 0x22, CHR 0x27])
                   (Split (Trim listStr ''[]'') '',''))))"

definition foreachItems :: "store \<Rightarrow> string \<Rightarrow> val list" where
  "foreachItems vars listPart =
     (if HasPrefix listPart ''['' \<and> HasSuffix listPart '']'' then listItems listPart
      else if HasPrefix listPart ''$''
      then (case map_of vars (TrimPrefix listPart ''$'') of
              Some (VList v) \<Rightarrow> v
            | Some (VStr v) \<Rightarrow> (if HasPrefix v ''['' then listItems v else [])
            | _ \<Rightarrow> [])
      else [])"

fun foreach_loop :: "(string list \<Rightarrow> HTTPDSLv3 \<Rightarrow> loop_body_result) \<Rightarrow> string \<Rightarrow> string list
                     \<Rightarrow> val list \<Rightarrow> int \<Rightarrow> val list \<Rightarrow> HTTPDSLv3 \<Rightarrow> block_result" where
  "foreach_loop plb itemVar loopBody [] idx results self =
     Some ((results @ [VStr (''Foreach executed for '' @ Itoa idx @ '' items'')], None), self)"
| "foreach_loop plb itemVar loopBody (item # items) idx results self =
     (case plb loopBody (SetVariable ''_iteration'' (VInt (idx + 1))
                           (SetVariable ''_index'' (VInt idx) (SetVariable itemVar item self))) of
        None \<Rightarrow> None
      | Some (Inl err, self') \<Rightarrow>
          Some ((results,
                 Some (wrapError (''error in foreach iteration '' @ Itoa (idx + 1) @ '': '') err)),
                self')
      | Some (Inr loopResult, self') \<Rightarrow>
          if ShouldContinue loopResult
          then foreach_loop plb itemVar loopBody items (idx + 1)
                 (results @ filter nonEmpty (Results loopResult)) self'
          else if ShouldBreak loopResult
          then Some ((results @ filter nonEmpty (Results loopResult)
                      @ [VStr (''Foreach executed for '' @ Itoa (idx + 1) @ '' items'')], None), self')
          else foreach_loop plb itemVar loopBody items (idx + 1)
                 (results @ filter nonEmpty (Results loopResult)) self')"

subsection \<open>\<^verbatim>\<open>ParseWithBlockSupport\<close>\<close>

definition isHeaderLine :: "string \<Rightarrow> bool" where
  "isHeaderLine nextLine = (HasPrefix nextLine ''    '' \<and> HasPrefix (TrimSpace nextLine) ''header '')"

definition headerLines :: "string list \<Rightarrow> nat \<Rightarrow> string list" where
  "headerLines lines i = takeWhile isHeaderLine (drop (Suc i) lines)"

definition fullRequest :: "string list \<Rightarrow> nat \<Rightarrow> string" where
  "fullRequest lines i = Join (TrimSpace (lines ! i) # map TrimSpace (headerLines lines i)) '' ''"

definition isSingleLineIf :: "string \<Rightarrow> bool" where
  "isSingleLineIf line =
     (HasPrefix line ''if '' \<and> Contains line '' then '' \<and> Contains line '' else ''
      \<and> \<not> Contains line ''endif''
      \<and> length (SplitN2 line '' then '') = 2
      \<and> length (SplitN2 (SplitN2 line '' then '' ! 1) '' else '') = 2)"

definition conditionPart :: "string \<Rightarrow> string" where
  "conditionPart line = TrimPrefix (SplitN2 line '' then '' ! 0) ''if ''"

definition thenStatement :: "string \<Rightarrow> string" where
  "thenStatement line = SplitN2 (SplitN2 line '' then '' ! 1) '' else '' ! 0"

definition elseStatement :: "string \<Rightarrow> string" where
  "elseStatement line = SplitN2 (SplitN2 line '' then '' ! 1) '' else '' ! 1"

fun pwbs_loop :: "stmt_exec \<Rightarrow> nat \<Rightarrow> string list \<Rightarrow> nat \<Rightarrow> val list \<Rightarrow> HTTPDSLv3 \<Rightarrow> block_result" where
  "pwbs_loop exec 0 lines i results self = None"
| "pwbs_loop exec (Suc fuel) lines i results self =
     (if i \<ge> length lines then Some ((results, None), self)
      else if TrimSpace (lines ! i) = '''' \<or> HasPrefix (TrimSpace (lines ! i)) ''#''
              \<or> HasPrefix (TrimSpace (lines ! i)) ''//''
      then pwbs_loop exec fuel lines (Suc i) results self
      else if isHTTPMethod (TrimSpace (lines ! i))
      then (case exec (fullRequest lines i) self of
              (Inl err, self') \<Rightarrow>
                Some ((results, Some (wrapError ''error parsing HTTP request: '' err)), self')
            | (Inr result, self') \<Rightarrow>
                pwbs_loop exec fuel lines (Suc i + length (headerLines lines i))
                  (if nonEmpty result then results @ [result] else results) self')
      else if isIfLine (TrimSpace (lines ! i))
      then (case collectIfBlock (drop (Suc i) lines) 1 False ([], []) 0 of
              (blocks, k) \<Rightarrow>
                if length (if EvaluateCondition (variables self)
                                (TrimSuffix (TrimPrefix (TrimSpace (lines ! i)) ''if '') '' then'')
                           then fst blocks else snd blocks) > 0
                then (case pwbs_loop exec fuel
                             (Split (Join (if EvaluateCondition (variables self)
                                                (TrimSuffix (TrimPrefix (TrimSpace (lines ! i)) ''if '') '' then'')
                                           then fst blocks else snd blocks) [CHR 0x0A]) [CHR 0x0A])
                             0 [] self of
                        None \<Rightarrow> None
                      | Some ((blockResults, Some err), self') \<Rightarrow>
                          Some ((results, Some (wrapError ''error processing block: '' err)), self')
                      | Some ((blockResults, None), self') \<Rightarrow>
                          pwbs_loop exec fuel lines (Suc i + k + 1) (results @ blockResults) self')
                else pwbs_loop exec fuel lines (Suc i + k + 1) results self)
      else if HasPrefix (TrimSpace (lines ! i)) ''repeat '' \<and> HasSuffix (TrimSpace (lines ! i)) '' do''
      then (if length (Fields (TrimSpace (lines ! i))) < 4
            then Some ((results, Some (Errorf (''invalid repeat syntax: '' @ TrimSpace (lines ! i)))), self)
            else (case collectLoopBody (drop (Suc i) lines) 1 [] 0 of
                    (loopBody, k) \<Rightarrow>
                      (case repeat_loop
                              (\<lambda>body. plb_loop (\<lambda>code. pwbs_loop exec fuel (Split code [CHR 0x0A]) 0 [])
                                         exec fuel body 0 newLoopResult)
                              fuel (repeatCount (variables self) (Fields (TrimSpace (lines ! i)) ! 1))
                              loopBody 0 0 results self of
                         None \<Rightarrow> None
                       | Some ((results', Some err), self') \<Rightarrow> Some ((results', Some err), self')
                       | Some ((results', None), self') \<Rightarrow>
                           pwbs_loop exec fuel lines (Suc i + k + 1) results' self')))
      else if HasPrefix (TrimSpace (lines ! i)) ''while '' \<and> HasSuffix (TrimSpace (lines ! i)) '' do''
      then (case collectLoopBody (drop (Suc i) lines) 1 [] 0 of
              (loopBody, k) \<Rightarrow>
                (case while_loop
                        (\<lambda>body. plb_loop (\<lambda>code. pwbs_loop exec fuel (Split code [CHR 0x0A]) 0 [])
                                   exec fuel body 0 newLoopResult)
                        fuel (TrimSuffix (TrimPrefix (TrimSpace (lines ! i)) ''while '') '' do'')
                        loopBody 0 results self of
                   None \<Rightarrow> None
                 | Some ((results', Some err), self') \<Rightarrow> Some ((results', Some err), self')
                 | Some ((results', None), self') \<Rightarrow>
                     pwbs_loop exec fuel lines (Suc i + k + 1) results' self'))
      else if HasPrefix (TrimSpace (lines ! i)) ''foreach '' \<and> Contains (TrimSpace (lines ! i)) '' in ''
              \<and> HasSuffix (TrimSpace (lines ! i)) '' do''
      then (if length (Split (TrimSpace (lines ! i)) '' in '') \<noteq> 2
            then Some ((results, Some (Errorf (''invalid foreach syntax: '' @ TrimSpace (lines ! i)))), self)
            else (case collectLoopBody (drop (Suc i) lines) 1 [] 0 of
                    (loopBody, k) \<Rightarrow>
                      (case foreach_loop
                              (\<lambda>body. plb_loop (\<lambda>code. pwbs_loop exec fuel (Split code [CHR 0x0A]) 0 [])
                                         exec fuel body 0 newLoopResult)
                              (TrimPrefix (TrimPrefix (Split (TrimSpace (lines ! i)) '' in '' ! 0) ''foreach '') ''$'')
                              loopBody
                              (foreachItems (variables self)
                                 (TrimSuffix (Split (TrimSpace (lines ! i)) '' in '' ! 1) '' do''))
                              0 results self of
                         None \<Rightarrow> None
                       | Some ((results', Some err), self') \<Rightarrow> Some ((results', Some err), self')
                       | Some ((results', None), self') \<Rightarrow>
                           pwbs_loop exec fuel lines (Suc i + k + 1) results' self')))
      else if isSingleLineIf (TrimSpace (lines ! i))
      then (if inlineCondition (variables self) (conditionPart (TrimSpace (lines ! i)))
            then (case exec (thenStatement (TrimSpace (lines ! i))) self of
                    (Inl err, self') \<Rightarrow>
                      Some ((results, Some (wrapError ''error in then statement: '' err)), self')
                  | (Inr result, self') \<Rightarrow> pwbs_loop exec fuel lines (Suc i) (results @ [result]) self')
            else (case exec (elseStatement (TrimSpace (lines ! i))) self of
                    (Inl err, self') \<Rightarrow>
                      Some ((results, Some (wrapError ''error in else statement: '' err)), self')
                  | (Inr result, self') \<Rightarrow> pwbs_loop exec fuel lines (Suc i) (results @ [result]) self'))
      else (case exec (TrimSpace (lines ! i)) self of
              (Inl err, self') \<Rightarrow>
                Some ((results, Some (wrapError (''error at line '' @ Itoa (int i + 1) @ '': '') err)), self')
            | (Inr result, self') \<Rightarrow> pwbs_loop exec fuel lines (Suc i) (results @ [result]) self'))"

definition ParseWithBlockSupport :: "stmt_exec \<Rightarrow> nat \<Rightarrow> string \<Rightarrow> HTTPDSLv3 \<Rightarrow> block_result" where
  "ParseWithBlockSupport exec fuel code self = pwbs_loop exec fuel (Split code [CHR 0x0A]) 0 [] self"

definition ProcessLoopBody :: "stmt_exec \<Rightarrow> nat \<Rightarrow> string list \<Rightarrow> HTTPDSLv3 \<Rightarrow> loop_body_result" where
  "ProcessLoopBody exec fuel body self =
     plb_loop (ParseWithBlockSupport exec fuel) exec fuel body 0 newLoopResult self"

definition unlines :: "string list \<Rightarrow> string" where
  "unlines ls = Join ls [CHR 0x0A]"

subsection \<open>A runtime and a state for examples\<close>


text \<open>The equations of the loops are unfolded only where a proof asks for them.\<close>

declare fields_from.simps [simp del] SkipSpace.simps [simp del] scanString.simps [simp del]
  statement.simps [simp del] filterItems.simps [simp del] jsonPathParts.simps [simp del]
  extractIf_from.simps [simp del] extractLoop_from.simps [simp del]
  splitThenElse.simps [simp del] scanControl.simps [simp del]
  collectLoopBody.simps [simp del] collectIfBlock.simps [simp del]
  nestedLoopLines.simps [simp del] plb_loop.simps [simp del] repeat_loop.simps [simp del]
  while_loop.simps [simp del] foreach_loop.simps [simp del] pwbs_loop.simps [simp del]

section \<open>Properties\<close>

subsection \<open>Truthiness\<close>

text \<open>
  The interpreter decides the truth of a value in three places. \<^verbatim>\<open>toBool\<close> is
  called by the actions of the grammar on the value of a \<^verbatim>\<open>condition\<close> rule, and the
  actions of that rule (\<^verbatim>\<open>comparison\<close>, \<^verbatim>\<open>containsCheck\<close>, \<^verbatim>\<open>emptyCheck\<close>,
  \<^verbatim>\<open>existsCheck\<close>, \<^verbatim>\<open>andCondition\<close>, \<^verbatim>\<open>orCondition\<close>, \<^verbatim>\<open>notCondition\<close>) all return a
  boolean, which \<^verbatim>\<open>toBool\<close> returns as it is. \<^verbatim>\<open>EvaluateSimpleCondition\<close> decides
  the condition of a block \<^verbatim>\<open>if $var then\<close> by the switch modelled as \<^verbatim>\<open>truthy\<close>.
  The conditions of \<^verbatim>\<open>while\<close> lines and of single-line \<^verbatim>\<open>if ... then ... else\<close> go to
  the evaluator written out in \<^verbatim>\<open>ParseWithBlockSupport\<close> (\<^verbatim>\<open>inlineCondition\<close>), which
  knows comparisons of three fields only.
\<close>

lemma toBool_false_iff:
  "(\<not> toBool v) = (v = VNil \<or> v = VBool False \<or> v = VInt 0 \<or> v = VStr '''' \<or> v = VStr ''false''
                    \<or> v = VStr ''0'')"
  by (cases v) auto

lemma truthy_false_iff:
  "(\<not> truthy v) = (v = VNil \<or> v = VBool False \<or> v = VInt 0 \<or> v = VFloat 0 \<or> v = VStr ''''
                    \<or> v = VStr ''false'' \<or> v = VStr ''0'')"
  by (cases v) (auto simp: truthy_def)

lemma inlineCondition_one_field: "length (Fields c) \<noteq> 3 \<Longrightarrow> \<not> inlineCondition vars c"
  by (simp add: inlineCondition_def Let_def)

text \<open>
  C8. The claim reads: for every value used as a condition, the evaluation of its
  truth is false exactly for null, boolean false, the number zero, the empty string
  and the strings "false" and "0"; every other value is true. The README of the
  repository shows a loop \<^verbatim>\<open>while $searching do\<close>. The value of a variable that
  stands alone as the condition of a \<^verbatim>\<open>while\<close> line is never looked at: the evaluator
  of that line wants three fields and counts any other condition as false. With
  \<^verbatim>\<open>searching = "yes"\<close>, a value that is true by the claim, the loop below runs no
  turn at all and \<^verbatim>\<open>searching\<close> keeps its value, whereas \<^verbatim>\<open>EvaluateCondition\<close>, which
  decides the same condition for a block \<^verbatim>\<open>if $searching then\<close>, finds it true.
\<close>

theorem bare_variable_condition_of_while_is_false:
  \<open>ParseWithBlockSupport (ParseWithContext examplelib) 9
     (unlines [''set $searching "yes"'', ''while $searching do'', ''set $searching ""'', ''endloop''])
     (NewHTTPDSLv3 [])
   = Some (([VStr ''Variable $searching set to yes'', VStr ''While loop executed 0 times''], None),
           (NewHTTPDSLv3 [])\<lparr>variables := [(''searching'', VStr ''yes'')]\<rparr>)
   \<and> \<not> inlineCondition [(''searching'', VStr ''yes'')] ''$searching''
   \<and> EvaluateCondition [(''searching'', VStr ''yes'')] ''$searching''
   \<and> truthy (VStr ''yes'')\<close>
  by code_simp

subsection \<open>Comparison\<close>

text \<open>
  \<^verbatim>\<open>Compare\<close> follows the rule of the specification word for word: with one of the
  six operators, the comparison is numeric when both stringified sides are accepted
  by \<^verbatim>\<open>ParseFloat\<close>, and lexicographic on the stringified sides otherwise.
\<close>

lemma Compare_numeric:
  "ParseFloat (Sprintf_v l) = Some a \<Longrightarrow> ParseFloat (Sprintf_v r) = Some b \<Longrightarrow>
   cmp_switch op a b = Some res \<Longrightarrow> Compare l op r = res"
  by (simp add: Compare_def Let_def)

lemma Compare_lexicographic:
  "ParseFloat (Sprintf_v l) = None \<or> ParseFloat (Sprintf_v r) = None \<Longrightarrow>
   cmp_switch op (Sprintf_v l) (Sprintf_v r) = Some res \<Longrightarrow> Compare l op r = res"
  by (auto simp: Compare_def Let_def split: option.splits)

text \<open>
  C7. The claim reads: for every comparison with one of the six operators, the
  comparison is numeric if both stringified sides parse as floating-point numbers,
  and lexicographic on the stringified forms otherwise. The two comparison functions
  of the code decide the same comparison differently. On the string \<^verbatim>\<open>10abc\<close> against
  \<^verbatim>\<open>9\<close> with the operator "greater than", \<^verbatim>\<open>Compare\<close> finds that \<^verbatim>\<open>10abc\<close> is no
  number and compares the strings (false), while \<^verbatim>\<open>CompareValues\<close> reads the left
  side with \<^verbatim>\<open>Sscanf\<close>, which takes the leading \<^verbatim>\<open>10\<close> and ignores the rest, and
  compares numbers (true). So a block that opens with \<^verbatim>\<open>if $v > 9 then\<close> runs its
  then-branch for \<^verbatim>\<open>v = "10abc"\<close>.
\<close>

theorem comparison_paths_disagree:
  "CompareValues (VStr ''10abc'') ''>'' (VStr ''9'')
   \<and> \<not> Compare (VStr ''10abc'') ''>'' (VStr ''9'')
   \<and> ParseFloat (Sprintf_v (VStr ''10abc'')) = None
   \<and> \<not> ''10abc'' > ''9''
   \<and> EvaluateCondition [(''v'', VStr ''10abc'')] ''$v > 9''"
  by code_simp

subsection \<open>Variable expansion\<close>

lemma expandVariables_in_empty: "expandVariables_in names [] s = s"
  by (induction names) (simp_all add: expandVariables_in_def)

text \<open>
  C6. The claim reads: in every expanded string each \<^verbatim>\<open>$name\<close> of a defined variable
  is replaced by the variable's stringification, and each \<^verbatim>\<open>$name\<close> of an undefined
  variable expands to the empty string, without an error. The test "Undefined
  variable" of the repository carries the same expectation in its comment. The code
  only replaces the names it finds in the store: with no variable defined the string
  comes back as it is, so \<^verbatim>\<open>print "Value: $undefined"\<close> yields
  \<^verbatim>\<open>Value: $undefined\<close> and not \<^verbatim>\<open>Value: \<close>.
\<close>

theorem undefined_variable_left_verbatim:
  \<open>expandVariables lib (NewHTTPDSLv3 net) ''Value: $undefined'' = ''Value: $undefined''
   \<and> ParseWithBlockSupport (ParseWithContext examplelib) 5 ''print "Value: $undefined"'' (NewHTTPDSLv3 [])
       = Some (([VStr ''Value: $undefined''], None), NewHTTPDSLv3 [])\<close>
proof
  show "expandVariables lib (NewHTTPDSLv3 net) ''Value: $undefined'' = ''Value: $undefined''"
    by (simp add: expandVariables_def NewHTTPDSLv3_def expandVariables_in_empty)
  show \<open>ParseWithBlockSupport (ParseWithContext examplelib) 5 ''print "Value: $undefined"'' (NewHTTPDSLv3 [])
    = Some (([VStr ''Value: $undefined''], None), NewHTTPDSLv3 [])\<close>
    by code_simp
qed

text \<open>
  C9. The claim reads: two runs of the same script from the same variables and
  responses end in the same variable map; in particular the result of expansion does
  not depend on the order in which the variable store is visited, also when one name
  is a prefix of another. The code replaces \<^verbatim>\<open>$name\<close> for one variable after the
  other, in the order of Go's map iteration. With \<^verbatim>\<open>a = "1"\<close> and \<^verbatim>\<open>ab = "2"\<close> the
  string \<^verbatim>\<open>$ab\<close> becomes \<^verbatim>\<open>1b\<close> when \<^verbatim>\<open>a\<close> is visited first and \<^verbatim>\<open>2\<close> when \<^verbatim>\<open>ab\<close> is:
  the same script ends with two different values of \<^verbatim>\<open>r\<close>.
\<close>

theorem expansion_depends_on_map_order:
  \<open>ParseWithBlockSupport (ParseWithContext examplelib) 9
     (unlines [''set $a "1"'', ''set $ab "2"'', ''set $r "$ab"'']) (NewHTTPDSLv3 [])
   = Some (([VStr ''Variable $a set to 1'', VStr ''Variable $ab set to 2'',
             VStr ''Variable $r set to 1b''], None),
           (NewHTTPDSLv3 [])\<lparr>variables := [(''a'', VStr ''1''), (''ab'', VStr ''2''), (''r'', VStr ''1b'')]\<rparr>)
   \<and> ParseWithBlockSupport (ParseWithContext (examplelib\<lparr>rangeOrder := rev\<rparr>)) 9
     (unlines [''set $a "1"'', ''set $ab "2"'', ''set $r "$ab"'']) (NewHTTPDSLv3 [])
   = Some (([VStr ''Variable $a set to 1'', VStr ''Variable $ab set to 2'',
             VStr ''Variable $r set to 2''], None),
           (NewHTTPDSLv3 [])\<lparr>variables := [(''a'', VStr ''1''), (''ab'', VStr ''2''), (''r'', VStr ''2'')]\<rparr>)\<close>
  by code_simp

subsection \<open>Extraction\<close>

text \<open>
  C4. While the engine holds no response body (as it does until the first request
  has been answered), \<^verbatim>\<open>extract\<close> of every kind, with or without a pattern, writes the
  empty string to the target variable and returns the warning; it returns no error.
\<close>

theorem extract_without_response:
  assumes "GetLastResponse (engine self) = ''''"
  shows "extractVariable lib extractType pattern var self
           = (Inr (VStr (noResponseWarning (TrimPrefix var ''$''))),
              self\<lparr>variables := AList.update (TrimPrefix var ''$'') (VStr '''') (variables self)\<rparr>)
       \<and> extractVariableNoPattern lib extractType var self
           = (Inr (VStr (noResponseWarning (TrimPrefix var ''$''))),
              self\<lparr>variables := AList.update (TrimPrefix var ''$'') (VStr '''') (variables self)\<rparr>)
       \<and> map_of (variables (snd (extractVariable lib extractType pattern var self))) (TrimPrefix var ''$'')
           = Some (VStr '''')
       \<and> map_of (variables (snd (extractVariableNoPattern lib extractType var self))) (TrimPrefix var ''$'')
           = Some (VStr '''')"
  using assms by (simp add: extractVariable_def extractVariableNoPattern_def Let_def update_conv')

theorem extract_without_response_witness:
  \<open>GetLastResponse (engine (NewHTTPDSLv3 [])) = ''''
   \<and> extractVariable examplelib ''jsonpath'' ''"$.a"'' ''$v'' (NewHTTPDSLv3 [])
       = (Inr (VStr ''Warning: No response available for extraction. Variable $v set to empty.''),
          (NewHTTPDSLv3 [])\<lparr>variables := [(''v'', VStr '''')]\<rparr>)
   \<and> ParseWithBlockSupport (ParseWithContext examplelib) 5
        (unlines [''extract jsonpath "$.a" as $v'', ''print $v'']) (NewHTTPDSLv3 [])
       = Some (([VStr ''Warning: No response available for extraction. Variable $v set to empty.'',
                 VStr ''$v = ''], None),
               (NewHTTPDSLv3 [])\<lparr>variables := [(''v'', VStr '''')]\<rparr>)\<close>
proof -
  have h: "GetLastResponse (engine (NewHTTPDSLv3 [])) = ''''" by code_simp
  have t: "TrimPrefix ''$v'' ''$'' = ''v''" by code_simp
  have w: "noResponseWarning ''v''
             = ''Warning: No response available for extraction. Variable $v set to empty.''"
    by code_simp
  have u: "AList.update ''v'' (VStr '''') (variables (NewHTTPDSLv3 [])) = [(''v'', VStr '''')]"
    by code_simp
  have s: \<open>ParseWithBlockSupport (ParseWithContext examplelib) 5
        (unlines [''extract jsonpath "$.a" as $v'', ''print $v'']) (NewHTTPDSLv3 [])
       = Some (([VStr ''Warning: No response available for extraction. Variable $v set to empty.'',
                 VStr ''$v = ''], None),
               (NewHTTPDSLv3 [])\<lparr>variables := [(''v'', VStr '''')]\<rparr>)\<close>
    by code_simp
  from extract_without_response [OF h, of examplelib "''jsonpath''" \<open>''"$.a"''\<close> "''$v''"] h s
  show ?thesis by (simp add: t w u)
qed

text \<open>
  C10. The claim reads: with a response at hand, an \<^verbatim>\<open>extract\<close> whose query matches
  nothing still succeeds, the nil result being stored as the empty string. For a
  JSONPath with a negative index the code does not get as far: \<^verbatim>\<open>extractJSONPath\<close>
  checks \<^verbatim>\<open>index < len(arr)\<close> only, and \<^verbatim>\<open>arr[index]\<close> panics. (The array access of
  the grammar, \<^verbatim>\<open>arrayAccess\<close>, checks \<^verbatim>\<open>index >= 0\<close> as well.) After a response with
  the body \<^verbatim>\<open>[]\<close>, the statement \<^verbatim>\<open>extract jsonpath "$[-1]" as $v\<close> ends the script
  with the panic, and \<^verbatim>\<open>v\<close> is not written.
\<close>

theorem extract_negative_index_panics:
  \<open>ParseWithBlockSupport (ParseWithContext examplelib) 5
     (unlines [''GET "http://h/list"'', ''extract jsonpath "$[-1]" as $v''])
     (NewHTTPDSLv3 [(1, DoResponse 200 [] ''[]'')])
   = Some (([VMap [(''body'', VStr ''[]''), (''headers'', VMap []), (''size'', VInt 2),
                   (''status'', VInt 200), (''time'', VFloat 1)]],
            Some (Panic ''index out of range'')),
           (NewHTTPDSLv3 [])\<lparr>engine := (NewHTTPEngine [])\<lparr>lastResponse := Some [],
              lastResponseBody := ''[]'', lastStatusCode := 200, lastResponseTime := 1\<rparr>\<rparr>)\<close>
  by code_simp

subsection \<open>A request that fails\<close>







subsection \<open>The single-line conditional\<close>

text \<open>
  C1. The claim reads: a single-line \<^verbatim>\<open>if cond then X else Y\<close> runs X when the
  condition is true and Y when it is false, and the line
  \<^verbatim>\<open>if 5 > 3 then set $a "Y" else set $a "N"\<close> leaves \<^verbatim>\<open>a\<close> equal to \<^verbatim>\<open>Y\<close>. The code
  evaluates the condition of this form in place and takes its first field for the
  name of a variable; there is no variable \<^verbatim>\<open>5\<close>, the condition counts as false and
  the else-branch runs: \<^verbatim>\<open>a\<close> ends as \<^verbatim>\<open>N\<close>. The evaluator of the block form,
  \<^verbatim>\<open>EvaluateCondition\<close>, finds \<^verbatim>\<open>5 > 3\<close> true.
\<close>

theorem single_line_if_literal_condition_runs_else:
  \<open>ParseWithBlockSupport (ParseWithContext examplelib) 5
      ''if 5 > 3 then set $a "Y" else set $a "N"'' (NewHTTPDSLv3 [])
   = Some (([VStr ''Variable $a set to N''], None),
           (NewHTTPDSLv3 [])\<lparr>variables := [(''a'', VStr ''N'')]\<rparr>)
   \<and> EvaluateCondition [] ''5 > 3''\<close>
  by code_simp

subsection \<open>Break and continue\<close>

text \<open>
  C2. The claim reads: a \<^verbatim>\<open>break\<close> or \<^verbatim>\<open>continue\<close> executed in a loop body, also inside
  nested \<^verbatim>\<open>if\<close> blocks, is consumed by exactly one loop frame, the innermost enclosing
  loop, and no signal survives a loop exit. In the first script below a \<^verbatim>\<open>repeat 3\<close>
  loop with the body \<^verbatim>\<open>break\<close> sits in an \<^verbatim>\<open>if\<close> block of a \<^verbatim>\<open>repeat 2\<close> loop. The
  inner loop ends at the \<^verbatim>\<open>break\<close>; then \<^verbatim>\<open>ProcessIfBlockWithControl\<close> searches the
  lines of the block it has executed for a line \<^verbatim>\<open>break\<close>, finds the one of the inner
  loop and reports a break to the outer loop, which ends after one turn instead of
  two (whatever the statement executor is: it is never called). In the second
  script the \<^verbatim>\<open>break\<close> of an \<^verbatim>\<open>if\<close> block is also run as a statement, and the flag
  that the grammar's action sets in the execution context is still set when the
  loop and the script have ended.
\<close>

theorem break_in_inner_loop_ends_outer_loop:
  \<open>ParseWithBlockSupport exec 20
     (unlines [''repeat 2 times do'', ''if 1 == 1 then'', ''repeat 3 times do'', ''break'',
               ''endloop'', ''endif'', ''endloop''])
     (NewHTTPDSLv3 [])
   = Some (([VStr ''Repeated 1 times'', VStr ''Repeated 1 times''], None),
           (NewHTTPDSLv3 [])\<lparr>variables := [(''_index'', VInt 0), (''_iteration'', VInt 1)]\<rparr>)
   \<and> ParseWithBlockSupport (ParseWithContext examplelib) 20
     (unlines [''repeat 2 times do'', ''if 1 == 1 then'', ''break'', ''endif'', ''endloop''])
     (NewHTTPDSLv3 [])
   = Some (([VStr ''break'', VStr ''Repeated 1 times''], None),
           (NewHTTPDSLv3 [])\<lparr>variables := [(''_index'', VInt 0), (''_iteration'', VInt 1)],
                               ctx := [(''break'', VBool True)]\<rparr>)\<close>
  by code_simp

subsection \<open>The cap on \<^verbatim>\<open>while\<close>\<close>

lemma plb_loop_continue_line:
  "plb_loop pwbs exec (Suc n) [''continue''] 0 newLoopResult s =
     Some (Inr (newLoopResult\<lparr>ShouldContinue := True\<rparr>), s)"
proof -
  have "TrimSpace ''continue'' = ''continue''" "\<not> HasPrefix ''continue'' ''#''" by code_simp+
  then show ?thesis by (simp add: plb_loop.simps)
qed

lemma plb_loop_continue_or_out_of_fuel:
  "plb_loop pwbs exec n [''continue''] 0 newLoopResult s = None
   \<or> (\<exists>r. plb_loop pwbs exec n [''continue''] 0 newLoopResult s = Some (Inr r, s) \<and> ShouldContinue r)"
proof (cases n)
  case 0
  then show ?thesis by (simp add: plb_loop.simps)
next
  case (Suc m)
  have "ShouldContinue (newLoopResult\<lparr>ShouldContinue := True\<rparr>)" by simp
  with plb_loop_continue_line [of pwbs exec m s] Suc show ?thesis by blast
qed

text \<open>
  A \<^verbatim>\<open>while\<close> loop whose body ends every turn with \<^verbatim>\<open>continue\<close> and whose condition
  holds in every state it reaches (an invariant \<^verbatim>\<open>I\<close>) does not return, whatever the
  fuel: \<^verbatim>\<open>continue\<close> goes back to the loop head before \<^verbatim>\<open>iterations++\<close>, so the
  counter that the cap tests never moves.
\<close>

lemma while_loop_continue_diverges:
  assumes plb: "\<And>s. plb body s = None \<or> (\<exists>r. plb body s = Some (Inr r, s) \<and> ShouldContinue r)"
    and cond: "\<And>s. I s \<Longrightarrow> inlineCondition (variables s) c"
    and keep: "\<And>s v. I s \<Longrightarrow> I (SetVariable ''_iteration'' v s)"
  shows "I s \<Longrightarrow> iterations < maxIterations \<Longrightarrow>
           while_loop plb n c body iterations results s = None"
proof (induction n arbitrary: results s)
  case 0
  show ?case by (simp add: while_loop.simps)
next
  case (Suc n)
  let ?s1 = "SetVariable ''_iteration'' (VInt (iterations + 1)) s"
  from Suc.prems(1) have c1: "I ?s1" by (rule keep)
  from Suc.prems(1) have c0: "inlineCondition (variables s) c" by (rule cond)
  from plb [of ?s1] show ?case
  proof
    assume "plb body ?s1 = None"
    with Suc.prems c0 show ?thesis by (simp add: while_loop.simps)
  next
    assume "\<exists>r. plb body ?s1 = Some (Inr r, ?s1) \<and> ShouldContinue r"
    then obtain r where r: "plb body ?s1 = Some (Inr r, ?s1)" "ShouldContinue r" by blast
    from Suc.IH [OF c1 Suc.prems(2)]
    have "while_loop plb n c body iterations (results @ filter nonEmpty (Results r)) ?s1 = None" .
    with r Suc.prems c0 show ?thesis by (simp add: while_loop.simps)
  qed
qed

lemma inlineCondition_c_lt_1:
  "map_of vars ''c'' = Some (VFloat 0) \<Longrightarrow> inlineCondition vars ''$c < 1''"
proof -
  assume c: "map_of vars ''c'' = Some (VFloat 0)"
  have f: "Fields ''$c < 1'' = [''$c'', ''<'', ''1'']" by code_simp
  have t: "TrimPrefix ''$c'' ''$'' = ''c''" by code_simp
  have s: "Sscanf_f ''1'' = Some 1" by code_simp
  have o: "cmp_switch ''<'' (0::rat) 1 = Some True" by code_simp
  show ?thesis
    by (simp add: inlineCondition_def f t s o c inlineNumber_def)
qed

lemma map_of_SetVariable_other:
  "k \<noteq> name \<Longrightarrow> map_of (variables (SetVariable name v s)) k = map_of (variables s) k"
  by (simp add: SetVariable_def update_conv')

lemma runaway_script_lines:
  "Split (unlines [''set $c 0'', ''while $c < 1 do'', ''continue'', ''endloop'']) [CHR 0x0A]
     = [''set $c 0'', ''while $c < 1 do'', ''continue'', ''endloop'']"
  by code_simp

lemma runaway_first_line:
  "pwbs_loop (ParseWithContext lib) (Suc n)
     [''set $c 0'', ''while $c < 1 do'', ''continue'', ''endloop''] 0 [] (NewHTTPDSLv3 net)
   = pwbs_loop (ParseWithContext lib) n
     [''set $c 0'', ''while $c < 1 do'', ''continue'', ''endloop''] 1 [VStr ''Variable $c set to 0'']
     ((NewHTTPDSLv3 net)\<lparr>variables := [(''c'', VFloat 0)]\<rparr>)"
proof -
  have a: "TrimSpace ''set $c 0'' = ''set $c 0''" by code_simp
  have b: "\<not> HasPrefix ''set $c 0'' ''#''" "\<not> HasPrefix ''set $c 0'' ''//''"
    "\<not> isHTTPMethod ''set $c 0''" "\<not> isIfLine ''set $c 0''"
    "\<not> HasPrefix ''set $c 0'' ''repeat ''" "\<not> HasPrefix ''set $c 0'' ''while ''"
    "\<not> HasPrefix ''set $c 0'' ''foreach ''" "\<not> isSingleLineIf ''set $c 0''"
    by code_simp+
  have c: "tokenize ''set $c 0''
             = Some [Token ''set'' ''set'', Token ''VARIABLE'' ''$c'', Token ''NUMBER'' ''0'']"
    by code_simp
  have d: "ParseFloat ''0'' = Some 0" "TrimPrefix ''$c'' ''$'' = ''c''" "FormatFloat 0 = ''0''"
    by code_simp+
  have e: "ParseWithContext lib ''set $c 0'' (NewHTTPDSLv3 net)
        = (Inr (VStr ''Variable $c set to 0''), (NewHTTPDSLv3 net)\<lparr>variables := [(''c'', VFloat 0)]\<rparr>)"
    by (simp add: ParseWithContext_def c statement.simps valueRule_def valueNumber_def setVariable_def d
                  NewHTTPDSLv3_def andThen_def parsed_def)
  show ?thesis
    by (simp add: pwbs_loop.simps a b e)
qed

lemma runaway_while_line:
  assumes c: "map_of (variables s) ''c'' = Some (VFloat 0)"
  shows "pwbs_loop exec n [''set $c 0'', ''while $c < 1 do'', ''continue'', ''endloop''] 1 rs s = None"
proof (cases n)
  case 0
  then show ?thesis by (simp add: pwbs_loop.simps)
next
  case (Suc m)
  let ?plb = "\<lambda>body. plb_loop (\<lambda>code. pwbs_loop exec m (Split code [CHR 0x0A]) 0 []) exec m body 0
                        newLoopResult"
  have a: "TrimSpace ''while $c < 1 do'' = ''while $c < 1 do''" by code_simp
  have b: "\<not> HasPrefix ''while $c < 1 do'' ''#''" "\<not> HasPrefix ''while $c < 1 do'' ''//''"
    "\<not> isHTTPMethod ''while $c < 1 do''" "\<not> isIfLine ''while $c < 1 do''"
    "\<not> HasPrefix ''while $c < 1 do'' ''repeat ''" "HasPrefix ''while $c < 1 do'' ''while ''"
    "HasSuffix ''while $c < 1 do'' '' do''"
    "TrimSuffix (TrimPrefix ''while $c < 1 do'' ''while '') '' do'' = ''$c < 1''"
    "collectLoopBody [''continue'', ''endloop''] 1 [] 0 = ([''continue''], 1)"
    by code_simp+
  have div: "while_loop ?plb m ''$c < 1'' [''continue''] 0 rs s = None"
  proof (rule while_loop_continue_diverges
               [where I = "\<lambda>s. map_of (variables s) ''c'' = Some (VFloat 0)"])
    show "?plb [''continue''] s' = None
          \<or> (\<exists>r. ?plb [''continue''] s' = Some (Inr r, s') \<and> ShouldContinue r)" for s'
      by (rule plb_loop_continue_or_out_of_fuel)
    show "inlineCondition (variables s') ''$c < 1''"
      if "map_of (variables s') ''c'' = Some (VFloat 0)" for s'
      using that by (rule inlineCondition_c_lt_1)
    show "map_of (variables (SetVariable ''_iteration'' v s')) ''c'' = Some (VFloat 0)"
      if "map_of (variables s') ''c'' = Some (VFloat 0)" for s' v
      using that by (simp add: map_of_SetVariable_other)
    show "map_of (variables s) ''c'' = Some (VFloat 0)" by (rule c)
    show "(0::int) < maxIterations" by (simp add: maxIterations_def)
  qed
  show ?thesis
    by (simp add: Suc pwbs_loop.simps a b div)
qed

text \<open>
  C3. The claim reads: no \<^verbatim>\<open>while\<close> loop runs its body more than 1000 times,
  whatever the body does, also when it executes \<^verbatim>\<open>continue\<close> on every turn. The
  script \<^verbatim>\<open>set $c 0\<close>, \<^verbatim>\<open>while $c < 1 do\<close>, \<^verbatim>\<open>continue\<close>, \<^verbatim>\<open>endloop\<close> does not return:
  no amount of fuel is enough for it. (The \<^verbatim>\<open>whileLoop\<close> action of the grammar counts
  every turn.)
\<close>

theorem while_continue_never_returns:
  "ParseWithBlockSupport (ParseWithContext lib) fuel
     (unlines [''set $c 0'', ''while $c < 1 do'', ''continue'', ''endloop'']) (NewHTTPDSLv3 net) = None"
proof (cases fuel)
  case 0
  then show ?thesis by (simp add: ParseWithBlockSupport_def pwbs_loop.simps)
next
  case (Suc n)
  have "map_of (variables ((NewHTTPDSLv3 net)\<lparr>variables := [(''c'', VFloat 0)]\<rparr>)) ''c'' = Some (VFloat 0)"
    by simp
  then show ?thesis
    unfolding ParseWithBlockSupport_def runaway_script_lines Suc runaway_first_line
    by (rule runaway_while_line)
qed

end
